theory Spec2Isabelle
  imports Main
begin

section \<open>The submission intake service (src/server.js, final revision)\<close>

text \<open>
  The file \<^verbatim>\<open>src/server.js\<close> holds two revisions of the service; the second one (from
  \<^verbatim>\<open>// ===== Env =====\<close> on) is the one with upsert, linked class resolution and the
  dual-transport notification, and it is the one embedded here. The record store
  (Airtable), the object storage (S3) and the two mail transports are libraries outside
  the repository: they are modelled by an explicit world state, and every call that can
  throw takes its outcome from a record of outcomes for the request.
\<close>

subsection \<open>JavaScript strings and truthiness\<close>

text \<open>
  A JavaScript string is a sequence of 16-bit code units. A code unit is an integer here
  (from 0 to 65535 in every string that JavaScript can hold), and \<open>js\<close> writes a string
  of ASCII characters as code units. No definition below does arithmetic on a code unit
  except \<open>lower_char\<close>, which adds 32 to a number between 65 and 90.
\<close>

type_synonym code_unit = int

type_synonym jsstring = "code_unit list"

definition js :: "string \<Rightarrow> jsstring" where
  "js s = map of_char s"

text \<open>
  An environment variable or a cell is \<open>None\<close> when it is undefined; a string is truthy
  when it is not empty.
\<close>

definition truthy :: "jsstring option \<Rightarrow> bool" where
  "truthy v = (case v of None \<Rightarrow> False | Some s \<Rightarrow> s \<noteq> [])"

text \<open>\<^verbatim>\<open>v || ''\<close>\<close>

definition or_empty :: "jsstring option \<Rightarrow> jsstring" where
  "or_empty v = (case v of None \<Rightarrow> [] | Some s \<Rightarrow> s)"

text \<open>
  \<^verbatim>\<open>String.prototype.trim\<close> removes the white space and the line terminators of
  ECMAScript from both ends: tab, line feed, vertical tab, form feed, carriage return,
  space, U+00A0, U+1680, U+2000 to U+200A, U+2028, U+2029, U+202F, U+205F, U+3000 and
  U+FEFF. All of them are single code units.
\<close>

definition is_space :: "code_unit \<Rightarrow> bool" where
  "is_space c =
     (c \<in> set [9, 10, 11, 12, 13, 32, 160, 5760, 8232, 8233, 8239, 8287, 12288, 65279] \<or>
      (8192 \<le> c \<and> c \<le> 8202))"

definition trim :: "jsstring \<Rightarrow> jsstring" where
  "trim s = rev (dropWhile is_space (rev (dropWhile is_space s)))"

text \<open>
  The formula function \<^verbatim>\<open>LOWER\<close> of the record store, on the ASCII letters. What the
  store does to other letters is not in the source; no proof below looks inside
  \<open>lower\<close>.
\<close>

definition lower_char :: "code_unit \<Rightarrow> code_unit" where
  "lower_char c = (if 65 \<le> c \<and> c \<le> 90 then c + 32 else c)"

definition lower :: "jsstring \<Rightarrow> jsstring" where
  "lower s = map lower_char s"

text \<open>
  The character classes of the two regular expressions of the source. Neither has the
  \<^verbatim>\<open>u\<close> flag, so both work on code units, and \<^verbatim>\<open>\w\<close> is \<^verbatim>\<open>[A-Za-z0-9_]\<close>.
\<close>

definition is_alnum :: "code_unit \<Rightarrow> bool" where
  "is_alnum c = ((48 \<le> c \<and> c \<le> 57) \<or> (65 \<le> c \<and> c \<le> 90) \<or> (97 \<le> c \<and> c \<le> 122))"

text \<open>\<^verbatim>\<open>/^rec[0-9A-Za-z]{14}$/.test(s)\<close>\<close>

definition looks_like_record_id :: "jsstring \<Rightarrow> bool" where
  "looks_like_record_id s =
     (length s = 17 \<and> take 3 s = js ''rec'' \<and> list_all is_alnum (drop 3 s))"

text \<open>\<^verbatim>\<open>[\w.\-()+ ]\<close>: the characters that \<^verbatim>\<open>safeName\<close> keeps.\<close>

definition safe_char :: "code_unit \<Rightarrow> bool" where
  "safe_char c = (is_alnum c \<or> c \<in> set (js ''_.-()+ ''))"

text \<open>
  \<^verbatim>\<open>name.replace(/[^\w.\-()+ ]+/g, '_')\<close>: every maximal run of other characters
  becomes one underscore. The flag says that the previous character belonged to a run.
\<close>

fun safeName_from :: "bool \<Rightarrow> jsstring \<Rightarrow> jsstring" where
  "safeName_from in_run [] = []"
| "safeName_from in_run (c # cs) =
     (if safe_char c then c # safeName_from False cs
      else if in_run then safeName_from True cs
      else 95 # safeName_from True cs)"

definition safeName :: "jsstring \<Rightarrow> jsstring" where
  "safeName name = safeName_from False name"

text \<open>\<^verbatim>\<open>s.replace(/\n/g, '<br>')\<close>\<close>

definition nl_to_br :: "jsstring \<Rightarrow> jsstring" where
  "nl_to_br s = concat (map (\<lambda>c. if c = 10 then js ''<br>'' else [c]) s)"

text \<open>\<^verbatim>\<open>s.split(',')\<close>: the empty string gives one empty piece.\<close>

fun split_comma :: "jsstring \<Rightarrow> jsstring list" where
  "split_comma [] = [[]]"
| "split_comma (c # cs) =
     (if c = 44 then [] # split_comma cs
      else (case split_comma cs of
              [] \<Rightarrow> [[c]]
            | p # ps \<Rightarrow> (c # p) # ps))"

text \<open>\<^verbatim>\<open>[...new Set(xs)]\<close>: the first occurrence of each element, in order.\<close>

fun uniq_from :: "jsstring list \<Rightarrow> jsstring list \<Rightarrow> jsstring list" where
  "uniq_from seen [] = []"
| "uniq_from seen (x # xs) =
     (if x \<in> set seen then uniq_from seen xs else x # uniq_from (x # seen) xs)"

definition uniq :: "jsstring list \<Rightarrow> jsstring list" where
  "uniq xs = uniq_from [] xs"

text \<open>\<^verbatim>\<open>FIND(p, s) > 0\<close> of the record store's formulas: \<open>p\<close> occurs in \<open>s\<close>.\<close>

fun starts_with :: "jsstring \<Rightarrow> jsstring \<Rightarrow> bool" where
  "starts_with [] s = True"
| "starts_with (p # ps) [] = False"
| "starts_with (p # ps) (c # cs) = (p = c \<and> starts_with ps cs)"

fun occurs_in :: "jsstring \<Rightarrow> jsstring \<Rightarrow> bool" where
  "occurs_in p [] = (p = [])"
| "occurs_in p (c # cs) = (starts_with p (c # cs) \<or> occurs_in p cs)"

subsection \<open>Configuration\<close>

text \<open>
  The environment variables that the request handler and the mail helpers read.
  \<^verbatim>\<open>process.env\<close> is written nowhere in the source, so the value read when the module
  is loaded and the value read when a mail is sent are the same.
\<close>

record env =
  BREVO_API_KEY :: "jsstring option"
  SMTP_USER :: "jsstring option"
  SMTP_PASS :: "jsstring option"
  SMTP_FROM :: "jsstring option"
  OVERRIDE_NOTIFICATION_EMAIL :: "jsstring option"
  AIRTABLE_APPLICANTS_TABLE_ID :: "jsstring option"
  AIRTABLE_UNDERWRITERS_TABLE_ID :: "jsstring option"
  SPACES_BUCKET :: "jsstring option"
  SPACES_ENDPOINT :: "jsstring option"

text \<open>
  \<^verbatim>\<open>requireEnv\<close>: the process exits at start unless these are set. The mail user and
  password are required only when there is no API key.
\<close>

definition startup_ok :: "env \<Rightarrow> bool" where
  "startup_ok e =
     (truthy (SMTP_FROM e) \<and> truthy (SPACES_ENDPOINT e) \<and> truthy (SPACES_BUCKET e) \<and>
      (if truthy (BREVO_API_KEY e) then True
       else truthy (SMTP_USER e) \<and> truthy (SMTP_PASS e)))"

text \<open>
  \<^verbatim>\<open>const transporter = (!BREVO_API_KEY) ? nodemailer.createTransport({...}) : null\<close>.
  The transport is described by the credentials it was created with.
\<close>

record smtp_transport =
  auth_user :: "jsstring option"
  auth_pass :: "jsstring option"

definition transporter :: "env \<Rightarrow> smtp_transport option" where
  "transporter e =
     (if \<not> truthy (BREVO_API_KEY e)
      then Some \<lparr>auth_user = SMTP_USER e, auth_pass = SMTP_PASS e\<rparr>
      else None)"

subsection \<open>The world: tables, bucket and the calls issued\<close>

record attachment =
  att_url :: jsstring
  att_filename :: jsstring

text \<open>
  A row of the submissions table. A blank cell reads as \<^verbatim>\<open>undefined\<close>, which the source
  turns into \<^verbatim>\<open>''\<close> for the notes and into \<^verbatim>\<open>[]\<close> for the files, so a blank cell is the
  empty string or the empty list here. The four columns have distinct names (the
  defaults are distinct). The store-assigned id of a row is its position in the table:
  rows are never deleted.
\<close>

record submission_row =
  row_email :: jsstring
  row_class :: "jsstring list"
  row_notes :: jsstring
  row_files :: "attachment list"

record class_row =
  class_id :: jsstring
  class_name :: jsstring

record applicant_row =
  applicant_email :: jsstring
  applicant_class :: "jsstring option"

text \<open>
  The recipient cell of an underwriter row: blank, one string (possibly comma separated)
  or a multi-value list.
\<close>

datatype email_cell = Blank | Text jsstring | Multi "jsstring list"

record underwriter_row =
  uw_class :: jsstring
  uw_email :: email_cell

text \<open>The calls issued to the collaborators that write or send, in the order issued.\<close>

datatype event =
    PutObject jsstring
  | CreateClass jsstring
  | CreateSubmission
  | UpdateSubmission nat
  | BrevoPost "jsstring list" jsstring jsstring
  | SmtpSend jsstring jsstring jsstring

record world =
  submissions :: "submission_row list"
  classes :: "class_row list"
  applicants :: "applicant_row list"
  underwriters :: "underwriter_row list"
  bucket :: "jsstring list"
  trace :: "event list"

text \<open>
  What the collaborators answer during one request. A call that fails has no effect on
  the tables. \<open>brevo\<close> is the answer of the mail API: a response with its status and
  body, or no response at all (\<^verbatim>\<open>fetch\<close> throws). \<open>smtp_rejected\<close> holds the addresses
  that the mail server rejects, in the order in which their rejections settle.
  \<open>new_class_id\<close> is the id the store gives to a class row created in this request;
  \<open>uuid\<close> and \<open>yyyymm\<close> are \<^verbatim>\<open>crypto.randomUUID()\<close> and the current month.
\<close>

datatype brevo_outcome = BrevoResponse nat jsstring | BrevoUnreachable

record outcomes =
  applicants_query_fails :: bool
  s3_put_fails :: bool
  class_lookup_fails :: bool
  class_create_fails :: bool
  class_fetch_fails :: bool
  submission_lookup_fails :: bool
  submission_write_fails :: bool
  uw_by_ref_fails :: bool
  uw_by_name_fails :: bool
  brevo :: brevo_outcome
  smtp_rejected :: "jsstring list"
  new_class_id :: jsstring
  uuid :: jsstring
  yyyymm :: jsstring

datatype error =
    StoreError
  | StorageError
  | BrevoApiFailed nat jsstring
  | FetchFailed
  | SmtpFailed jsstring
  | MissingApiKey
  | TypeError

definition issue :: "event \<Rightarrow> world \<Rightarrow> world" where
  "issue ev w = w\<lparr>trace := trace w @ [ev]\<rparr>"

subsection \<open>Email helpers\<close>

text \<open>
  \<^verbatim>\<open>sendEmailBrevo\<close>: one request for the whole list; throws when the key is missing, when
  \<^verbatim>\<open>fetch\<close> throws and when the response is not ok (\<^verbatim>\<open>res.ok\<close>: a status from 200 to
  299).
\<close>

definition sendEmailBrevo ::
  "env \<Rightarrow> outcomes \<Rightarrow> jsstring list \<Rightarrow> jsstring \<Rightarrow> jsstring \<Rightarrow> world \<Rightarrow> (error + unit) \<times> world" where
  "sendEmailBrevo e oc toList subject html w =
     (if \<not> truthy (BREVO_API_KEY e) then (Inl MissingApiKey, w)
      else
        (let w1 = issue (BrevoPost toList subject html) w
         in case brevo oc of
              BrevoResponse st txt \<Rightarrow>
                (if 200 \<le> st \<and> st \<le> 299 then (Inr (), w1)
                 else (Inl (BrevoApiFailed st txt), w1))
            | BrevoUnreachable \<Rightarrow> (Inl FetchFailed, w1)))"

text \<open>
  \<^verbatim>\<open>Promise.all(list.map(to => transporter.sendMail({...})))\<close>: \<^verbatim>\<open>map\<close> starts every send,
  and the promise rejects with the rejection that settles first, if there is one. With
  no transporter the call on \<^verbatim>\<open>null\<close> throws before anything is sent.
\<close>

definition smtp_all ::
  "smtp_transport option \<Rightarrow> outcomes \<Rightarrow> jsstring list \<Rightarrow> jsstring \<Rightarrow> jsstring \<Rightarrow> world
     \<Rightarrow> (error + unit) \<times> world" where
  "smtp_all t oc list subject html w =
     (case t of
        None \<Rightarrow> (if list = [] then (Inr (), w) else (Inl TypeError, w))
      | Some tr \<Rightarrow>
          (let w1 = w\<lparr>trace := trace w @ map (\<lambda>to. SmtpSend to subject html) list\<rparr>
           in case find (\<lambda>to. to \<in> set list) (smtp_rejected oc) of
                None \<Rightarrow> (Inr (), w1)
              | Some to \<Rightarrow> (Inl (SmtpFailed to), w1)))"

text \<open>\<^verbatim>\<open>sendEmails\<close>\<close>

definition sendEmails ::
  "env \<Rightarrow> outcomes \<Rightarrow> jsstring list \<Rightarrow> jsstring \<Rightarrow> jsstring \<Rightarrow> world \<Rightarrow> (error + unit) \<times> world" where
  "sendEmails e oc list subject html w =
     (if truthy (BREVO_API_KEY e) then
        (case sendEmailBrevo e oc list subject html w of
           (Inr u, w1) \<Rightarrow> (Inr u, w1)
         | (Inl err, w1) \<Rightarrow>
             (case transporter e of
                Some tr \<Rightarrow> smtp_all (Some tr) oc list subject html w1
              | None \<Rightarrow> (Inl err, w1)))
      else smtp_all (transporter e) oc list subject html w)"

text \<open>The mails handed to the direct mail transport among the calls issued.\<close>

fun is_smtp :: "event \<Rightarrow> bool" where
  "is_smtp (SmtpSend to subject html) = True"
| "is_smtp ev = False"

definition smtp_attempts :: "world \<Rightarrow> event list" where
  "smtp_attempts w = filter is_smtp (trace w)"

subsection \<open>Record store helpers\<close>

text \<open>
  \<^verbatim>\<open>airtableFindOne\<close> is \<open>find\<close>: the first row that satisfies the filter. The filter
  formulas are taken by what they say (\<^verbatim>\<open>LOWER({f}) = LOWER("x")\<close> is equality of the
  lower-cased strings), not as text that the store parses.
  \<open>first_index\<close> is the same search returning the position of the row, which stands for
  the row's id.
\<close>

fun first_index :: "('a \<Rightarrow> bool) \<Rightarrow> 'a list \<Rightarrow> nat option" where
  "first_index p [] = None"
| "first_index p (x # xs) =
     (if p x then Some 0 else map_option Suc (first_index p xs))"

text \<open>\<^verbatim>\<open>getOrCreateClassIdByName\<close>\<close>

definition getOrCreateClassIdByName ::
  "outcomes \<Rightarrow> jsstring \<Rightarrow> world \<Rightarrow> (error + jsstring option) \<times> world" where
  "getOrCreateClassIdByName oc name w =
     (if name = [] then (Inr None, w)
      else if class_lookup_fails oc then (Inl StoreError, w)
      else
        (case find (\<lambda>r. lower (class_name r) = lower name) (classes w) of
           Some existing \<Rightarrow> (Inr (Some (class_id existing)), w)
         | None \<Rightarrow>
             (let w1 = issue (CreateClass name) w
              in if class_create_fails oc then (Inl StoreError, w1)
                 else (Inr (Some (new_class_id oc)),
                       w1\<lparr>classes := classes w1 @
                            [\<lparr>class_id = new_class_id oc, class_name = name\<rparr>]\<rparr>))))"

text \<open>\<^verbatim>\<open>findSubmissionByEmail\<close>: the position of the first row with that email, ignoring case.\<close>

definition findSubmissionByEmail :: "jsstring \<Rightarrow> world \<Rightarrow> nat option" where
  "findSubmissionByEmail email w =
     first_index (\<lambda>r. lower (row_email r) = lower email) (submissions w)"

subsection \<open>The request handler, step by step\<close>

record upload_file =
  originalname :: jsstring
  mimetype :: jsstring

text \<open>
  A field of \<^verbatim>\<open>req.body\<close> as the upload middleware builds it: a string, or, when the
  field name is repeated or has brackets, an array or an object. The handler does three
  things with such a value: it tests it for truth (an array or object is true), it calls
  a string method on it (a \<^verbatim>\<open>TypeError\<close>, caught by the outer \<^verbatim>\<open>try\<close>), or it puts it into
  a template literal. \<open>Other t\<close> is an array or object whose conversion to a string is
  \<open>t\<close>, and throws when \<open>t\<close> is \<open>None\<close>. A body that is not multipart brings no file
  and is answered by one of the two checks at the start of the handler.
\<close>

datatype field = Str jsstring | Other "jsstring option"

record request =
  classOfBusiness :: "field option"
  moreInfo :: "field option"
  submitterEmail :: "field option"
  req_file :: "upload_file option"

definition field_truthy :: "field option \<Rightarrow> bool" where
  "field_truthy v =
     (case v of None \<Rightarrow> False | Some (Str s) \<Rightarrow> s \<noteq> [] | Some (Other t) \<Rightarrow> True)"

text \<open>A field that is missing or a string, and the string it then holds.\<close>

definition is_text :: "field option \<Rightarrow> bool" where
  "is_text v = (case v of Some (Other t) \<Rightarrow> False | _ \<Rightarrow> True)"

fun text_of :: "field option \<Rightarrow> jsstring option" where
  "text_of (Some (Str s)) = Some s"
| "text_of v = None"

text \<open>\<^verbatim>\<open>`${v}`\<close>\<close>

definition to_text :: "field \<Rightarrow> error + jsstring" where
  "to_text v =
     (case v of Str s \<Rightarrow> Inr s | Other None \<Rightarrow> Inl TypeError | Other (Some t) \<Rightarrow> Inr t)"

text \<open>
  The effective class (\<^verbatim>\<open>// resolve class\<close>): the form value trimmed, else the class of
  the first applicant with that email. \<^verbatim>\<open>.trim()\<close> on a class that is not a string
  throws, and so does \<^verbatim>\<open>.replace\<close> in \<^verbatim>\<open>escapeForAirtableFormulaDoubleQuotes\<close> on a
  submitter email that is not one, before the query is sent. A cell of the directory is
  the string it converts to.
\<close>

definition effectiveClass ::
  "env \<Rightarrow> outcomes \<Rightarrow> world \<Rightarrow> field option \<Rightarrow> field \<Rightarrow> error + jsstring" where
  "effectiveClass e oc w cob email =
     (case cob of
        Some (Other t) \<Rightarrow> Inl TypeError
      | _ \<Rightarrow>
          (let ec = trim (or_empty (text_of cob))
           in if ec = [] \<and> truthy (AIRTABLE_APPLICANTS_TABLE_ID e) then
                (case email of
                   Other t \<Rightarrow> Inl TypeError
                 | Str em \<Rightarrow>
                     (if applicants_query_fails oc then Inl StoreError
                      else
                        (case find (\<lambda>r. lower (applicant_email r) = lower em) (applicants w) of
                           None \<Rightarrow> Inr ec
                         | Some rec \<Rightarrow>
                             (case applicant_class rec of
                                None \<Rightarrow> Inr ec
                              | Some v \<Rightarrow> if v = [] then Inr ec else Inr (trim v)))))
              else Inr ec))"

text \<open>An undefined value inside a template literal prints as \<^verbatim>\<open>undefined\<close>.\<close>

definition tpl :: "jsstring option \<Rightarrow> jsstring" where
  "tpl v = (case v of None \<Rightarrow> (js ''undefined'') | Some s \<Rightarrow> s)"

definition object_key :: "outcomes \<Rightarrow> jsstring \<Rightarrow> jsstring" where
  "object_key oc name =
     (js ''applications/'') @ yyyymm oc @ js ''/'' @ uuid oc @ js ''-'' @ safeName name"

definition publicUrl :: "env \<Rightarrow> jsstring \<Rightarrow> jsstring" where
  "publicUrl e key =
     (js ''https://'') @ tpl (SPACES_BUCKET e) @ js ''.'' @ tpl (SPACES_ENDPOINT e) @ js ''/'' @ key"

definition s3_send :: "outcomes \<Rightarrow> jsstring \<Rightarrow> world \<Rightarrow> (error + unit) \<times> world" where
  "s3_send oc key w =
     (let w1 = issue (PutObject key) w
      in if s3_put_fails oc then (Inl StorageError, w1)
         else (Inr (), w1\<lparr>bucket := bucket w1 @ [key]\<rparr>))"

text \<open>
  \<^verbatim>\<open>// resolve linked class\<close>: the link to write, the id it holds and the name shown in
  the mail. Reading the class row back is inside its own \<^verbatim>\<open>try\<close>: a failure or a missing
  row leaves the display name as it was.
\<close>

record class_resolution =
  classLink :: "jsstring list"
  classRecordId :: "jsstring option"
  classDisplayName :: jsstring

definition fetch_class_name :: "outcomes \<Rightarrow> jsstring \<Rightarrow> jsstring \<Rightarrow> world \<Rightarrow> jsstring" where
  "fetch_class_name oc shown cid w =
     (if class_fetch_fails oc then shown
      else
        (case find (\<lambda>r. class_id r = cid) (classes w) of
           None \<Rightarrow> shown
         | Some clsRec \<Rightarrow> if class_name clsRec = [] then shown else class_name clsRec))"

text \<open>
  \<^verbatim>\<open>if (/^rec[0-9A-Za-z]{14}$/.test(effectiveClass)) classRecordId=effectiveClass;
  else classRecordId=await getOrCreateClassIdByName(effectiveClass);\<close>
\<close>

definition resolve_classRecordId ::
  "outcomes \<Rightarrow> jsstring \<Rightarrow> world \<Rightarrow> (error + jsstring option) \<times> world" where
  "resolve_classRecordId oc ec w =
     (if looks_like_record_id ec then (Inr (Some ec), w)
      else getOrCreateClassIdByName oc ec w)"

definition resolve_linked_class ::
  "outcomes \<Rightarrow> jsstring \<Rightarrow> world \<Rightarrow> (error + class_resolution) \<times> world" where
  "resolve_linked_class oc ec w =
     (let none = \<lparr>classLink = [], classRecordId = None, classDisplayName = trim ec\<rparr>
      in if ec = [] then (Inr none, w)
         else
           (case resolve_classRecordId oc ec w of
              (Inl err, w1) \<Rightarrow> (Inl err, w1)
            | (Inr None, w1) \<Rightarrow> (Inr none, w1)
            | (Inr (Some cid), w1) \<Rightarrow>
                (if cid = [] then (Inr (none\<lparr>classRecordId := Some cid\<rparr>), w1)
                 else (Inr \<lparr>classLink = [cid], classRecordId = Some cid,
                            classDisplayName = fetch_class_name oc (trim ec) cid w1\<rparr>,
                       w1))))"

text \<open>The notes of a merged row.\<close>

definition mergedNotes :: "jsstring \<Rightarrow> jsstring option \<Rightarrow> jsstring" where
  "mergedNotes existingNotes info =
     (if existingNotes \<noteq> [] \<and> truthy info then existingNotes @ [10] @ or_empty info
      else if truthy info then or_empty info
      else if existingNotes \<noteq> [] then existingNotes
      else [])"

text \<open>
  The fields of the update. \<^verbatim>\<open>update\<close> changes the cells it is given and leaves the others.
\<close>

definition merged_row ::
  "submission_row \<Rightarrow> jsstring \<Rightarrow> jsstring option \<Rightarrow> attachment \<Rightarrow> jsstring list \<Rightarrow> submission_row" where
  "merged_row existing email info att link =
     (let existingFiles = row_files existing;
          newFiles = existingFiles @ [att];
          existingNotes = row_notes existing;
          r = existing\<lparr>row_email := email,
                       row_notes := mergedNotes existingNotes info,
                       row_files := newFiles\<rparr>
      in if link \<noteq> [] then r\<lparr>row_class := link\<rparr> else r)"

definition created_row ::
  "jsstring \<Rightarrow> jsstring option \<Rightarrow> attachment \<Rightarrow> jsstring list \<Rightarrow> submission_row" where
  "created_row email info att link =
     \<lparr>row_email = email, row_class = link, row_notes = or_empty info, row_files = [att]\<rparr>"

text \<open>
  \<^verbatim>\<open>// UPSERT by email\<close>. The result says whether a row existed (\<^verbatim>\<open>existing\<close>), by its
  position.
\<close>

definition upsert ::
  "outcomes \<Rightarrow> jsstring \<Rightarrow> jsstring option \<Rightarrow> attachment \<Rightarrow> jsstring list \<Rightarrow> world
     \<Rightarrow> (error + nat option) \<times> world" where
  "upsert oc email info att link w =
     (if submission_lookup_fails oc then (Inl StoreError, w)
      else
        (case findSubmissionByEmail email w of
           Some i \<Rightarrow>
             (let w1 = issue (UpdateSubmission i) w
              in if submission_write_fails oc then (Inl StoreError, w1)
                 else (Inr (Some i),
                       w1\<lparr>submissions :=
                            (submissions w1)[i := merged_row (submissions w1 ! i) email info att link]\<rparr>))
         | None \<Rightarrow>
             (let w1 = issue CreateSubmission w
              in if submission_write_fails oc then (Inl StoreError, w1)
                 else (Inr None,
                       w1\<lparr>submissions := submissions w1 @ [created_row email info att link]\<rparr>))))"

text \<open>
  The reconciliation of one submission: the linked class is resolved, then the row is
  created or merged.
\<close>

definition reconcile ::
  "outcomes \<Rightarrow> jsstring \<Rightarrow> jsstring \<Rightarrow> jsstring option \<Rightarrow> attachment \<Rightarrow> world
     \<Rightarrow> (error + class_resolution \<times> nat option) \<times> world" where
  "reconcile oc email ec info att w =
     (case resolve_linked_class oc ec w of
        (Inl err, w1) \<Rightarrow> (Inl err, w1)
      | (Inr cr, w1) \<Rightarrow>
          (case upsert oc email info att (classLink cr) w1 of
             (Inl err, w2) \<Rightarrow> (Inl err, w2)
           | (Inr existing, w2) \<Rightarrow> (Inr (cr, existing), w2)))"

text \<open>
  The same lines when \<^verbatim>\<open>moreInfo\<close> is an array or an object \<open>Other t\<close> (which is true).
  On a row with notes the template literal converts it to a string, or throws before the
  update is sent. On a row without notes, and in a new row, the notes would be the array
  or object itself: the notes column is a text column and the store refuses the write.
\<close>

definition upsert_other ::
  "outcomes \<Rightarrow> jsstring \<Rightarrow> jsstring option \<Rightarrow> attachment \<Rightarrow> jsstring list \<Rightarrow> world
     \<Rightarrow> (error + nat option) \<times> world" where
  "upsert_other oc email t att link w =
     (if submission_lookup_fails oc then (Inl StoreError, w)
      else
        (case findSubmissionByEmail email w of
           Some i \<Rightarrow>
             (let existing = submissions w ! i
              in if row_notes existing \<noteq> [] then
                   (case t of
                      None \<Rightarrow> (Inl TypeError, w)
                    | Some txt \<Rightarrow>
                        (let w1 = issue (UpdateSubmission i) w
                         in if submission_write_fails oc then (Inl StoreError, w1)
                            else (Inr (Some i),
                                  w1\<lparr>submissions :=
                                       (submissions w1)
                                         [i := (merged_row existing email None att link)
                                                 \<lparr>row_notes := row_notes existing @ [10] @ txt\<rparr>]\<rparr>)))
                 else (Inl StoreError, issue (UpdateSubmission i) w))
         | None \<Rightarrow> (Inl StoreError, issue CreateSubmission w)))"

text \<open>
  The reconciliation as the handler runs it, on the fields of the form. With a submitter
  email and notes that are strings (or no notes) it is \<open>reconcile\<close>. With a submitter
  email that is not a string, \<^verbatim>\<open>findSubmissionByEmail\<close> throws on \<^verbatim>\<open>.replace\<close>, after the
  class has been resolved.
\<close>

definition reconcile_form ::
  "outcomes \<Rightarrow> field \<Rightarrow> jsstring \<Rightarrow> field option \<Rightarrow> attachment \<Rightarrow> world
     \<Rightarrow> (error + class_resolution \<times> nat option) \<times> world" where
  "reconcile_form oc email ec info att w =
     (case email of
        Other t \<Rightarrow>
          (case resolve_linked_class oc ec w of
             (Inl err, w1) \<Rightarrow> (Inl err, w1)
           | (Inr cr, w1) \<Rightarrow> (Inl TypeError, w1))
      | Str em \<Rightarrow>
          (case info of
             Some (Other t) \<Rightarrow>
               (case resolve_linked_class oc ec w of
                  (Inl err, w1) \<Rightarrow> (Inl err, w1)
                | (Inr cr, w1) \<Rightarrow>
                    (case upsert_other oc em t att (classLink cr) w1 of
                       (Inl err, w2) \<Rightarrow> (Inl err, w2)
                     | (Inr existing, w2) \<Rightarrow> (Inr (cr, existing), w2)))
           | _ \<Rightarrow> reconcile oc em ec (text_of info) att w))"

text \<open>
  \<^verbatim>\<open>// underwriter match\<close>: the rows whose class cell contains the class id, and only if
  there is none, the rows whose class cell is the display name.
\<close>

fun cell_values :: "email_cell \<Rightarrow> jsstring list" where
  "cell_values Blank = []"
| "cell_values (Text v) = (if v = [] then [] else split_comma v)"
| "cell_values (Multi vs) = vs"

definition matchedRecipients ::
  "env \<Rightarrow> outcomes \<Rightarrow> class_resolution \<Rightarrow> world \<Rightarrow> error + jsstring list" where
  "matchedRecipients e oc cr w =
     (if (truthy (classRecordId cr) \<or> classDisplayName cr \<noteq> []) \<and>
         truthy (AIRTABLE_UNDERWRITERS_TABLE_ID e) then
        (case (if truthy (classRecordId cr) then
                 (if uw_by_ref_fails oc then Inl StoreError
                  else Inr (filter (\<lambda>r. occurs_in (or_empty (classRecordId cr)) (uw_class r))
                              (underwriters w)))
               else Inr []) of
           Inl err \<Rightarrow> Inl err
         | Inr byRef \<Rightarrow>
             (case (if byRef = [] \<and> classDisplayName cr \<noteq> [] then
                      (if uw_by_name_fails oc then Inl StoreError
                       else Inr (filter (\<lambda>r. uw_class r = classDisplayName cr) (underwriters w)))
                    else Inr byRef) of
                Inl err \<Rightarrow> Inl err
              | Inr uwRecords \<Rightarrow>
                  (let emails = concat (map (\<lambda>r. cell_values (uw_email r)) uwRecords)
                   in Inr (uniq (filter (\<lambda>a. a \<noteq> []) (map trim emails))))))
      else Inr [])"

text \<open>\<^verbatim>\<open>const notifyList = OVERRIDE_NOTIFICATION_EMAIL ? [OVERRIDE_NOTIFICATION_EMAIL] : matchedRecipients\<close>\<close>

definition notifyList :: "env \<Rightarrow> jsstring list \<Rightarrow> jsstring list" where
  "notifyList e matched =
     (if truthy (OVERRIDE_NOTIFICATION_EMAIL e) then [or_empty (OVERRIDE_NOTIFICATION_EMAIL e)]
      else matched)"

definition mail_subject :: "jsstring \<Rightarrow> jsstring" where
  "mail_subject shown =
     (js ''New Application: '') @ (if shown \<noteq> [] then shown else js ''Unspecified Class'')"

definition mail_html :: "jsstring \<Rightarrow> jsstring \<Rightarrow> jsstring option \<Rightarrow> jsstring \<Rightarrow> jsstring \<Rightarrow> jsstring" where
  "mail_html email shown info url name =
     (js ''<p><strong>New application received</strong></p>'') @ [10] @
     (js ''<p><strong>Submitted By:</strong> '') @ email @ js ''</p>'' @ [10] @
     (js ''<p><strong>Class of Business:</strong> '') @
       (if shown \<noteq> [] then shown else js ''(not provided)'') @ js ''</p>'' @ [10] @
     (js ''<p><strong>More Information:</strong><br>'') @
       nl_to_br (if truthy info then or_empty info else js ''None provided'') @ js ''</p>'' @ [10] @
     (js ''<p><strong>File:</strong> <a href='') @ [34] @ url @ [34] @ js ''>'' @
       safeName name @ js ''</a></p>''"

text \<open>
  \<^verbatim>\<open>try{ if(notifyList.length) await sendEmails(...) } catch(e){ console.error(...) }\<close>:
  the error is logged and dropped.
\<close>

definition notify :: "env \<Rightarrow> outcomes \<Rightarrow> jsstring list \<Rightarrow> jsstring \<Rightarrow> jsstring \<Rightarrow> world \<Rightarrow> world" where
  "notify e oc list subject html w =
     (if list \<noteq> [] then snd (sendEmails e oc list subject html w) else w)"

type_synonym response = "nat \<times> jsstring"

text \<open>
  The mail body on the fields of the form: \<^verbatim>\<open>(moreInfo||'None provided').replace\<close> throws
  when \<^verbatim>\<open>moreInfo\<close> is an array or an object.
\<close>

definition mail_html_form ::
  "field \<Rightarrow> jsstring \<Rightarrow> field option \<Rightarrow> jsstring \<Rightarrow> jsstring \<Rightarrow> error + jsstring" where
  "mail_html_form email shown info url name =
     (case to_text email of
        Inl err \<Rightarrow> Inl err
      | Inr em \<Rightarrow>
          (case info of
             Some (Other t) \<Rightarrow> Inl TypeError
           | _ \<Rightarrow> Inr (mail_html em shown (text_of info) url name)))"

text \<open>
  The body of the outer \<^verbatim>\<open>try\<close>, after the two checks of the form. The mail body is built
  after the recipients are looked up and before the inner \<^verbatim>\<open>try\<close> of the notification.
\<close>

definition handle_upload ::
  "env \<Rightarrow> outcomes \<Rightarrow> request \<Rightarrow> field \<Rightarrow> upload_file \<Rightarrow> world \<Rightarrow> (error + response) \<times> world" where
  "handle_upload e oc req email f w =
     (case effectiveClass e oc w (classOfBusiness req) email of
        Inl err \<Rightarrow> (Inl err, w)
      | Inr ec \<Rightarrow>
          (let key = object_key oc (originalname f)
           in case s3_send oc key w of
                (Inl err, w1) \<Rightarrow> (Inl err, w1)
              | (Inr u, w1) \<Rightarrow>
                  (let url = publicUrl e key;
                       att = \<lparr>att_url = url, att_filename = originalname f\<rparr>
                   in case reconcile_form oc email ec (moreInfo req) att w1 of
                        (Inl err, w2) \<Rightarrow> (Inl err, w2)
                      | (Inr (cr, existing), w2) \<Rightarrow>
                          (case matchedRecipients e oc cr w2 of
                             Inl err \<Rightarrow> (Inl err, w2)
                           | Inr matched \<Rightarrow>
                               (let shown = classDisplayName cr
                                in case mail_html_form email shown (moreInfo req) url
                                          (originalname f) of
                                     Inl err \<Rightarrow> (Inl err, w2)
                                   | Inr html \<Rightarrow>
                                       (let w3 = notify e oc (notifyList e matched)
                                                   (mail_subject shown) html w2
                                        in (Inr (200,
                                                 if existing \<noteq> None
                                                 then js ''Existing record updated and notifications sent.''
                                                 else js ''New record created and notifications sent.''),
                                            w3)))))))"

text \<open>
  \<^verbatim>\<open>app.post('/upload', ...)\<close>, on the request that the upload middleware hands over:
  \<open>req_file\<close> is the file it accepted, if any. A request that the middleware refuses
  (file type, file size) does not reach the handler and is not modelled.
\<close>

definition upload :: "env \<Rightarrow> outcomes \<Rightarrow> request \<Rightarrow> world \<Rightarrow> response \<times> world" where
  "upload e oc req w =
     (case submitterEmail req of
        None \<Rightarrow> ((400, js ''Missing submitter email''), w)
      | Some email \<Rightarrow>
          (if \<not> field_truthy (Some email) then ((400, js ''Missing submitter email''), w)
           else
             (case req_file req of
                None \<Rightarrow> ((400, js ''No file uploaded''), w)
              | Some f \<Rightarrow>
                  (case handle_upload e oc req email f w of
                     (Inl err, w1) \<Rightarrow> ((500, js ''Server error''), w1)
                   | (Inr resp, w1) \<Rightarrow> (resp, w1)))))"

subsection \<open>Observations on the calls issued\<close>

text \<open>The writes to the record store among the calls issued.\<close>

fun is_store_write :: "event \<Rightarrow> bool" where
  "is_store_write (CreateClass name) = True"
| "is_store_write CreateSubmission = True"
| "is_store_write (UpdateSubmission i) = True"
| "is_store_write ev = False"

definition store_writes :: "world \<Rightarrow> event list" where
  "store_writes w = filter is_store_write (trace w)"

text \<open>The addresses of the mails among the calls issued.\<close>

fun recipients_of :: "event \<Rightarrow> jsstring list" where
  "recipients_of (BrevoPost toList subject html) = toList"
| "recipients_of (SmtpSend to subject html) = [to]"
| "recipients_of ev = []"

definition mail_recipients :: "event list \<Rightarrow> jsstring list" where
  "mail_recipients evs = concat (map recipients_of evs)"

text \<open>
  A sequence of reconciliations, each with its own outcomes; a reconciliation that fails
  leaves the world as it is when it fails, and the next one goes on from there.
\<close>

record reconciliation =
  with_outcomes :: outcomes
  of_email :: jsstring
  of_class :: jsstring
  of_notes :: "jsstring option"
  of_artifact :: attachment

fun reconcile_all :: "reconciliation list \<Rightarrow> world \<Rightarrow> world" where
  "reconcile_all [] w = w"
| "reconcile_all (r # rs) w =
     reconcile_all rs
       (snd (reconcile (with_outcomes r) (of_email r) (of_class r) (of_notes r) (of_artifact r) w))"

subsection \<open>Concrete inputs\<close>

text \<open>A configuration with the API key and the mail credentials all set.\<close>

definition env_both :: env where
  "env_both =
     \<lparr>BREVO_API_KEY = Some (js ''xkeysib-1''), SMTP_USER = Some (js ''user''), SMTP_PASS = Some (js ''pass''),
      SMTP_FROM = Some (js ''intake@ins.example''), OVERRIDE_NOTIFICATION_EMAIL = None,
      AIRTABLE_APPLICANTS_TABLE_ID = Some (js ''tblApplicants''),
      AIRTABLE_UNDERWRITERS_TABLE_ID = Some (js ''tblUnderwriters''),
      SPACES_BUCKET = Some (js ''bucket''), SPACES_ENDPOINT = Some (js ''nyc3.example.com'')\<rparr>"

text \<open>Outcomes where every call succeeds.\<close>

definition all_ok :: outcomes where
  "all_ok =
     \<lparr>applicants_query_fails = False, s3_put_fails = False, class_lookup_fails = False,
      class_create_fails = False, class_fetch_fails = False, submission_lookup_fails = False,
      submission_write_fails = False, uw_by_ref_fails = False, uw_by_name_fails = False,
      brevo = BrevoResponse 201 [], smtp_rejected = [], new_class_id = js ''recNEWCLASS000001'',
      uuid = js ''0000-1111'', yyyymm = js ''2025-01''\<rparr>"

definition empty_world :: world where
  "empty_world =
     \<lparr>submissions = [], classes = [], applicants = [], underwriters = [], bucket = [], trace = []\<rparr>"

definition report_pdf :: attachment where
  "report_pdf = \<lparr>att_url = js ''https://bucket.nyc3.example.com/k1'', att_filename = js ''report.pdf''\<rparr>"

definition addendum_pdf :: attachment where
  "addendum_pdf = \<lparr>att_url = js ''https://bucket.nyc3.example.com/k2'', att_filename = js ''addendum.pdf''\<rparr>"

text \<open>A world with one stored record, one category and one underwriter.\<close>

definition marine_world :: world where
  "marine_world =
     \<lparr>submissions = [\<lparr>row_email = js ''A@x.com'', row_class = [js ''recMARINE00000001''],
                      row_notes = js ''first'', row_files = [report_pdf]\<rparr>],
      classes = [\<lparr>class_id = js ''recMARINE00000001'', class_name = js ''Marine''\<rparr>],
      applicants = [],
      underwriters = [\<lparr>uw_class = js ''recMARINE00000001'', uw_email = Text (js ''u1@ins.com, u2@ins.com'')\<rparr>],
      bucket = [], trace = []\<rparr>"

text \<open>The same configuration with the operator override set.\<close>

definition env_override :: env where
  "env_override = env_both\<lparr>OVERRIDE_NOTIFICATION_EMAIL := Some (js ''ops@ins.example'')\<rparr>"

text \<open>A world whose applicant directory knows one identity.\<close>

definition directory_world :: world where
  "directory_world =
     empty_world\<lparr>applicants := [\<lparr>applicant_email = js ''A@x.com'', applicant_class = Some (js '' Fire '')\<rparr>]\<rparr>"

definition marine_request :: request where
  "marine_request =
     \<lparr>classOfBusiness = Some (Str (js ''Marine'')), moreInfo = Some (Str (js ''see attached'')),
      submitterEmail = Some (Str (js ''b@x.com'')),
      req_file = Some \<lparr>originalname = js ''report.pdf'', mimetype = js ''application/pdf''\<rparr>\<rparr>"

text \<open>
  A form in which the notes field comes twice, \<^verbatim>\<open>x\<close> and \<^verbatim>\<open>y\<close>: the middleware hands over
  the array \<^verbatim>\<open>['x', 'y']\<close>, which converts to \<^verbatim>\<open>x,y\<close>. The submitter has a stored
  record with notes.
\<close>

definition repeated_notes_request :: request where
  "repeated_notes_request =
     \<lparr>classOfBusiness = None, moreInfo = Some (Other (Some (js ''x,y''))),
      submitterEmail = Some (Str (js ''a@x.com'')),
      req_file = Some \<lparr>originalname = js ''addendum.pdf'', mimetype = js ''application/pdf''\<rparr>\<rparr>"

section \<open>Notification transport\<close>

lemma js_not_empty: "js (c # cs) \<noteq> []"
  by (simp add: js_def)

lemma length_js: "length (js s) = length s"
  by (simp add: js_def)

lemma smtp_attempts_issue_brevo:
  "smtp_attempts (issue (BrevoPost l s h) w) = smtp_attempts w"
  by (simp add: smtp_attempts_def issue_def)

text \<open>
  Claim C1. The claim: when the API path is taken and its request fails, the direct mail
  path is attempted once as fallback. The code: the transporter exists only when no API
  key is set, so whenever the API path is taken there is no transporter; \<^verbatim>\<open>sendEmails\<close>
  is then exactly \<^verbatim>\<open>sendEmailBrevo\<close>, a failure of the API request is the result, and no
  mail is ever handed to the direct mail transport, whatever mail credentials are set.
\<close>

theorem sendEmails_with_api_key_never_falls_back:
  assumes "truthy (BREVO_API_KEY e)"
  shows "transporter e = None \<and>
         sendEmails e oc list subject html w = sendEmailBrevo e oc list subject html w \<and>
         smtp_attempts (snd (sendEmails e oc list subject html w)) = smtp_attempts w"
proof -
  have t: "transporter e = None"
    using assms by (simp add: transporter_def)
  have s: "sendEmails e oc list subject html w = sendEmailBrevo e oc list subject html w"
    using assms t by (simp add: sendEmails_def split: prod.splits sum.splits)
  have "smtp_attempts (snd (sendEmailBrevo e oc list subject html w)) = smtp_attempts w"
    using assms
    by (simp add: sendEmailBrevo_def Let_def smtp_attempts_issue_brevo split: brevo_outcome.splits)
  with t s show ?thesis by simp
qed

text \<open>
  At the failing input: key, mail user and mail password all set, the API answers 500.
  The error of the API request is surfaced and nothing was sent by direct mail.
\<close>

theorem sendEmails_with_api_key_never_falls_back_witness:
  "truthy (BREVO_API_KEY env_both) \<and> truthy (SMTP_USER env_both) \<and> truthy (SMTP_PASS env_both) \<and>
   transporter env_both = None \<and>
   sendEmails env_both (all_ok\<lparr>brevo := BrevoResponse 500 (js ''down'')\<rparr>) [js ''u1@ins.com''] (js ''s'') (js ''h'')
       empty_world =
     (Inl (BrevoApiFailed 500 (js ''down'')),
      issue (BrevoPost [js ''u1@ins.com''] (js ''s'') (js ''h'')) empty_world) \<and>
   smtp_attempts (snd (sendEmails env_both (all_ok\<lparr>brevo := BrevoResponse 500 (js ''down'')\<rparr>)
                         [js ''u1@ins.com''] (js ''s'') (js ''h'') empty_world)) = []"
proof -
  have k: "truthy (BREVO_API_KEY env_both)"
    by code_simp
  have c: "truthy (SMTP_USER env_both) \<and> truthy (SMTP_PASS env_both)"
    by code_simp
  have b: "sendEmailBrevo env_both (all_ok\<lparr>brevo := BrevoResponse 500 (js ''down'')\<rparr>)
             [js ''u1@ins.com''] (js ''s'') (js ''h'') empty_world =
           (Inl (BrevoApiFailed 500 (js ''down'')),
            issue (BrevoPost [js ''u1@ins.com''] (js ''s'') (js ''h'')) empty_world)"
    using k by (simp add: sendEmailBrevo_def all_ok_def)
  have e: "smtp_attempts empty_world = []"
    by (simp add: smtp_attempts_def empty_world_def)
  from sendEmails_with_api_key_never_falls_back
         [OF k, of "all_ok\<lparr>brevo := BrevoResponse 500 (js ''down'')\<rparr>" "[js ''u1@ins.com'']"
            "(js ''s'')" "(js ''h'')" empty_world]
  show ?thesis using k c b e by (simp add: smtp_attempts_issue_brevo)
qed

section \<open>The record store helpers\<close>

lemma first_index_Some_less: "first_index p xs = Some i \<Longrightarrow> i < length xs"
  by (induction xs arbitrary: i) (auto split: if_splits)

lemma first_index_Some_holds: "first_index p xs = Some i \<Longrightarrow> p (xs ! i)"
  by (induction xs arbitrary: i) (auto split: if_splits)

lemma first_index_None_iff: "first_index p xs = None \<longleftrightarrow> list_all (\<lambda>x. \<not> p x) xs"
  by (induction xs) auto

lemma first_index_update:
  "first_index p xs = Some i \<Longrightarrow> p y \<Longrightarrow> first_index p (xs[i := y]) = Some i"
  by (induction xs arbitrary: i) (auto split: if_splits)

lemma first_index_append_new:
  "first_index p xs = None \<Longrightarrow> p y \<Longrightarrow> first_index p (xs @ [y]) = Some (length xs)"
  by (induction xs) (auto split: if_splits)

lemma getOrCreate_submissions:
  "submissions (snd (getOrCreateClassIdByName oc name w)) = submissions w"
  by (simp add: getOrCreateClassIdByName_def issue_def Let_def split: option.splits)

lemma resolve_classRecordId_submissions:
  "submissions (snd (resolve_classRecordId oc ec w)) = submissions w"
  by (simp add: resolve_classRecordId_def getOrCreate_submissions)

lemma resolve_linked_class_submissions:
  "submissions (snd (resolve_linked_class oc ec w)) = submissions w"
proof -
  have "submissions (snd (resolve_classRecordId oc ec w)) = submissions w"
    by (rule resolve_classRecordId_submissions)
  then show ?thesis
    by (auto simp: resolve_linked_class_def Let_def split: prod.splits sum.splits option.splits)
qed

lemma resolve_linked_class_empty:
  "resolve_linked_class oc [] w = (Inr cr, w1) \<Longrightarrow> classLink cr = []"
  by (auto simp: resolve_linked_class_def Let_def)

lemma resolve_linked_class_link:
  "resolve_linked_class oc ec w = (Inr cr, w1) \<Longrightarrow>
     classLink cr = (if truthy (classRecordId cr) then [or_empty (classRecordId cr)] else [])"
  by (auto simp: resolve_linked_class_def Let_def truthy_def or_empty_def
           split: prod.splits sum.splits option.splits if_splits)

lemma merged_row_email: "row_email (merged_row r email info att link) = email"
  by (simp add: merged_row_def Let_def)

lemma merged_row_files: "row_files (merged_row r email info att link) = row_files r @ [att]"
  by (simp add: merged_row_def Let_def)

lemma merged_row_notes:
  "row_notes (merged_row r email info att link) = mergedNotes (row_notes r) info"
  by (simp add: merged_row_def Let_def)

section \<open>Reconciliation\<close>

lemma upsert_merge:
  assumes "upsert oc email info att link w = (Inr (Some i), w')"
  shows "findSubmissionByEmail email w = Some i \<and>
         submissions w' = (submissions w)[i := merged_row (submissions w ! i) email info att link] \<and>
         trace w' = trace w @ [UpdateSubmission i]"
  using assms
  by (auto simp: upsert_def issue_def Let_def split: if_splits option.splits)

lemma upsert_create:
  assumes "upsert oc email info att link w = (Inr None, w')"
  shows "findSubmissionByEmail email w = None \<and>
         submissions w' = submissions w @ [created_row email info att link] \<and>
         trace w' = trace w @ [CreateSubmission]"
  using assms
  by (auto simp: upsert_def issue_def Let_def split: if_splits option.splits)

lemma reconcile_InrD:
  assumes "reconcile oc email ec info att w = (Inr (cr, x), w')"
  shows "\<exists>w1. resolve_linked_class oc ec w = (Inr cr, w1) \<and>
              upsert oc email info att (classLink cr) w1 = (Inr x, w')"
  using assms
  by (auto simp: reconcile_def split: prod.splits sum.splits)

lemma reconcile_merge:
  assumes "reconcile oc email ec info att w = (Inr (cr, Some i), w')"
  shows "findSubmissionByEmail email w = Some i \<and>
         i < length (submissions w) \<and>
         submissions w' =
           (submissions w)[i := merged_row (submissions w ! i) email info att (classLink cr)]"
proof -
  from reconcile_InrD [OF assms] obtain w1 where
    r: "resolve_linked_class oc ec w = (Inr cr, w1)" and
    u: "upsert oc email info att (classLink cr) w1 = (Inr (Some i), w')"
    by blast
  have s: "submissions w1 = submissions w"
    using resolve_linked_class_submissions [of oc ec w] r by simp
  from upsert_merge [OF u] s
  have f: "findSubmissionByEmail email w = Some i"
    and m: "submissions w' =
           (submissions w)[i := merged_row (submissions w ! i) email info att (classLink cr)]"
    by (simp_all add: findSubmissionByEmail_def)
  from f have "i < length (submissions w)"
    by (simp add: findSubmissionByEmail_def first_index_Some_less)
  with f m show ?thesis by simp
qed

lemma reconcile_create:
  assumes "reconcile oc email ec info att w = (Inr (cr, None), w')"
  shows "findSubmissionByEmail email w = None \<and>
         submissions w' = submissions w @ [created_row email info att (classLink cr)]"
proof -
  from reconcile_InrD [OF assms] obtain w1 where
    r: "resolve_linked_class oc ec w = (Inr cr, w1)" and
    u: "upsert oc email info att (classLink cr) w1 = (Inr None, w')"
    by blast
  have s: "submissions w1 = submissions w"
    using resolve_linked_class_submissions [of oc ec w] r by simp
  from upsert_create [OF u] s show ?thesis
    by (simp add: findSubmissionByEmail_def)
qed

lemma reconcile_found:
  assumes "reconcile oc email ec info att w = (Inr (cr, x), w')"
  shows "findSubmissionByEmail email w = x"
  using assms reconcile_merge [of oc email ec info att w cr _ w']
    reconcile_create [of oc email ec info att w cr w']
  by (cases x) simp_all

text \<open>
  Claim C2. When a reconciliation merges into an existing row, the stored class link
  is overwritten only when this submission resolved a non-empty class reference: the
  new link is the resolved one when there is one, and the old link otherwise. A
  reconciliation with an empty effective class resolves none and leaves the stored link
  as it was.
\<close>

theorem merge_overwrites_class_only_when_resolved:
  assumes "reconcile oc email ec info att w = (Inr (cr, Some i), w')"
  shows "i < length (submissions w) \<and>
         classLink cr = (if truthy (classRecordId cr) then [or_empty (classRecordId cr)] else []) \<and>
         row_class (submissions w' ! i) =
           (if classLink cr = [] then row_class (submissions w ! i) else classLink cr) \<and>
         (ec = [] \<longrightarrow> row_class (submissions w' ! i) = row_class (submissions w ! i))"
proof -
  from reconcile_InrD [OF assms] obtain w1 where
    r: "resolve_linked_class oc ec w = (Inr cr, w1)"
    by blast
  from reconcile_merge [OF assms] have
    l: "i < length (submissions w)" and
    m: "submissions w' =
           (submissions w)[i := merged_row (submissions w ! i) email info att (classLink cr)]"
    by simp_all
  have c: "row_class (submissions w' ! i) =
           (if classLink cr = [] then row_class (submissions w ! i) else classLink cr)"
    using l m by (simp add: merged_row_def Let_def)
  have e: "ec = [] \<longrightarrow> classLink cr = []"
    using r resolve_linked_class_empty by blast
  from l c e resolve_linked_class_link [OF r] show ?thesis by simp
qed

text \<open>
  The stored record of \<open>marine_world\<close> is linked to the category Marine; a second
  submission of the same identity without a class leaves the link in place.
\<close>

theorem merge_overwrites_class_only_when_resolved_witness:
  "fst (reconcile all_ok (js ''a@x.com'') [] None addendum_pdf marine_world) =
     Inr (\<lparr>classLink = [], classRecordId = None, classDisplayName = []\<rparr>, Some 0) \<and>
   row_class (submissions marine_world ! 0) = [js ''recMARINE00000001''] \<and>
   row_class (submissions (snd (reconcile all_ok (js ''a@x.com'') [] None addendum_pdf marine_world)) ! 0) =
     [js ''recMARINE00000001'']"
proof -
  let ?r = "reconcile all_ok (js ''a@x.com'') [] None addendum_pdf marine_world"
  have f: "fst ?r = Inr (\<lparr>classLink = [], classRecordId = None, classDisplayName = []\<rparr>, Some 0)"
    by code_simp
  then have h: "?r = (Inr (\<lparr>classLink = [], classRecordId = None, classDisplayName = []\<rparr>, Some 0),
                      snd ?r)"
    by (simp add: prod_eq_iff)
  have c: "row_class (submissions marine_world ! 0) = [js ''recMARINE00000001'']"
    by code_simp
  from merge_overwrites_class_only_when_resolved [OF h]
  have "row_class (submissions (snd ?r) ! 0) = row_class (submissions marine_world ! 0)"
    by simp
  with f c show ?thesis by simp
qed

text \<open>
  Claim C3. Two reconciliations with the same identity (up to letter case), both
  completing: the second one merges into the row that the first one created or merged
  into, and that row then holds the attachments it had before the first one, followed by
  the first artifact and then the second. Nothing is dropped or replaced.
\<close>

theorem second_reconciliation_keeps_both_artifacts:
  assumes r1: "reconcile oc1 email1 ec1 info1 att1 w = (Inr (cr1, x1), w1)"
      and r2: "reconcile oc2 email2 ec2 info2 att2 w1 = (Inr (cr2, x2), w2)"
      and same: "lower email2 = lower email1"
  shows "x2 = Some (case x1 of None \<Rightarrow> length (submissions w) | Some j \<Rightarrow> j) \<and>
         row_files (submissions w2 ! (case x1 of None \<Rightarrow> length (submissions w) | Some j \<Rightarrow> j)) =
           (case x1 of None \<Rightarrow> [] | Some j \<Rightarrow> row_files (submissions w ! j)) @ [att1, att2]"
proof (cases x1)
  case None
  let ?n = "length (submissions w)"
  let ?p = "\<lambda>r. lower (row_email r) = lower email1"
  from reconcile_create [OF r1 [unfolded None]] have
    f1: "first_index ?p (submissions w) = None" and
    s1: "submissions w1 = submissions w @ [created_row email1 info1 att1 (classLink cr1)]"
    by (simp_all add: findSubmissionByEmail_def)
  have "first_index ?p (submissions w1) = Some ?n"
    unfolding s1 by (rule first_index_append_new [OF f1]) (simp add: created_row_def)
  then have "findSubmissionByEmail email2 w1 = Some ?n"
    by (simp add: findSubmissionByEmail_def same)
  with reconcile_found [OF r2] have x2: "x2 = Some ?n" by simp
  from reconcile_merge [OF r2 [unfolded x2]] have
    "submissions w2 =
       (submissions w1)[?n := merged_row (submissions w1 ! ?n) email2 info2 att2 (classLink cr2)]"
    by simp
  then have "row_files (submissions w2 ! ?n) = [att1, att2]"
    by (simp add: s1 merged_row_files created_row_def)
  with x2 None show ?thesis by simp
next
  case (Some j)
  let ?p = "\<lambda>r. lower (row_email r) = lower email1"
  from reconcile_merge [OF r1 [unfolded Some]] have
    f1: "first_index ?p (submissions w) = Some j" and
    l1: "j < length (submissions w)" and
    s1: "submissions w1 =
           (submissions w)[j := merged_row (submissions w ! j) email1 info1 att1 (classLink cr1)]"
    by (simp_all add: findSubmissionByEmail_def)
  have "first_index ?p (submissions w1) = Some j"
    unfolding s1 by (rule first_index_update [OF f1]) (simp add: merged_row_email)
  then have "findSubmissionByEmail email2 w1 = Some j"
    by (simp add: findSubmissionByEmail_def same)
  with reconcile_found [OF r2] have x2: "x2 = Some j" by simp
  from reconcile_merge [OF r2 [unfolded x2]] have
    "submissions w2 =
       (submissions w1)[j := merged_row (submissions w1 ! j) email2 info2 att2 (classLink cr2)]"
    by simp
  then have "row_files (submissions w2 ! j) = row_files (submissions w ! j) @ [att1, att2]"
    using l1 by (simp add: s1 merged_row_files)
  with x2 Some show ?thesis by simp
qed

text \<open>
  The example of the specification: \<^verbatim>\<open>a@x.com\<close> submits \<^verbatim>\<open>report.pdf\<close> with class
  Marine into an empty store, then \<^verbatim>\<open>addendum.pdf\<close> with no class and the identity written
  in capitals.
\<close>

theorem second_reconciliation_keeps_both_artifacts_witness:
  "fst (reconcile all_ok (js ''a@x.com'') (js ''Marine'') None report_pdf empty_world) =
     Inr (\<lparr>classLink = [js ''recNEWCLASS000001''], classRecordId = Some (js ''recNEWCLASS000001''),
           classDisplayName = js ''Marine''\<rparr>, None) \<and>
   fst (reconcile all_ok (js ''A@X.COM'') [] None addendum_pdf
          (snd (reconcile all_ok (js ''a@x.com'') (js ''Marine'') None report_pdf empty_world))) =
     Inr (\<lparr>classLink = [], classRecordId = None, classDisplayName = []\<rparr>, Some 0) \<and>
   lower (js ''A@X.COM'') = lower (js ''a@x.com'') \<and>
   row_files (submissions
       (snd (reconcile all_ok (js ''A@X.COM'') [] None addendum_pdf
          (snd (reconcile all_ok (js ''a@x.com'') (js ''Marine'') None report_pdf empty_world)))) ! 0) =
     [report_pdf, addendum_pdf]"
proof -
  let ?r1 = "reconcile all_ok (js ''a@x.com'') (js ''Marine'') None report_pdf empty_world"
  let ?r2 = "reconcile all_ok (js ''A@X.COM'') [] None addendum_pdf (snd ?r1)"
  let ?c1 = "\<lparr>classLink = [js ''recNEWCLASS000001''], classRecordId = Some (js ''recNEWCLASS000001''),
             classDisplayName = js ''Marine''\<rparr>"
  let ?c2 = "\<lparr>classLink = [], classRecordId = None, classDisplayName = []\<rparr>"
  have f1: "fst ?r1 = Inr (?c1, None)"
    by code_simp
  have f2: "fst ?r2 = Inr (?c2, Some 0)"
    by code_simp
  have h1: "?r1 = (Inr (?c1, None), snd ?r1)"
    using f1 by (simp add: prod_eq_iff)
  have h2: "?r2 = (Inr (?c2, Some 0), snd ?r2)"
    using f2 by (simp add: prod_eq_iff)
  have s: "lower (js ''A@X.COM'') = lower (js ''a@x.com'')"
    by code_simp
  have n: "length (submissions empty_world) = 0"
    by (simp add: empty_world_def)
  from second_reconciliation_keeps_both_artifacts [OF h1 h2 s]
  have "row_files (submissions (snd ?r2) ! 0) = [report_pdf, addendum_pdf]"
    by (simp add: n)
  with f1 f2 s show ?thesis by simp
qed

text \<open>
  Claim C4. On a merge into an existing row: when the row has notes and the submission
  brings notes, the new notes are the old ones, a line break and the submitted ones;
  when the submission brings none (the field is missing or empty), the notes of the row
  stay as they are. When only the submission has notes, they become the notes.
\<close>

theorem merge_notes_policy:
  assumes "reconcile oc email ec info att w = (Inr (cr, Some i), w')"
  shows "(row_notes (submissions w ! i) \<noteq> [] \<and> truthy info \<longrightarrow>
            row_notes (submissions w' ! i) =
              row_notes (submissions w ! i) @ [10] @ or_empty info) \<and>
         (\<not> truthy info \<longrightarrow> row_notes (submissions w' ! i) = row_notes (submissions w ! i)) \<and>
         (row_notes (submissions w ! i) = [] \<and> truthy info \<longrightarrow>
            row_notes (submissions w' ! i) = or_empty info)"
proof -
  from reconcile_merge [OF assms] have
    l: "i < length (submissions w)" and
    m: "submissions w' =
           (submissions w)[i := merged_row (submissions w ! i) email info att (classLink cr)]"
    by simp_all
  have "row_notes (submissions w' ! i) = mergedNotes (row_notes (submissions w ! i)) info"
    using l m by (simp add: merged_row_notes)
  then show ?thesis by (simp add: mergedNotes_def)
qed

text \<open>
  The record of \<open>marine_world\<close> has the notes \<^verbatim>\<open>first\<close>: with new notes they are joined by a
  line break, with no notes, or with empty notes, they stay.
\<close>

theorem merge_notes_policy_witness:
  "fst (reconcile all_ok (js ''a@x.com'') [] (Some (js ''more'')) addendum_pdf marine_world) =
     Inr (\<lparr>classLink = [], classRecordId = None, classDisplayName = []\<rparr>, Some 0) \<and>
   row_notes (submissions marine_world ! 0) = js ''first'' \<and>
   row_notes (submissions
       (snd (reconcile all_ok (js ''a@x.com'') [] (Some (js ''more'')) addendum_pdf marine_world)) ! 0) =
     (js ''first'') @ [10] @ js ''more'' \<and>
   row_notes (submissions
       (snd (reconcile all_ok (js ''a@x.com'') [] None addendum_pdf marine_world)) ! 0) = js ''first'' \<and>
   row_notes (submissions
       (snd (reconcile all_ok (js ''a@x.com'') [] (Some []) addendum_pdf marine_world)) ! 0) = js ''first''"
proof -
  let ?c = "\<lparr>classLink = [], classRecordId = None, classDisplayName = []\<rparr>"
  let ?ra = "reconcile all_ok (js ''a@x.com'') [] (Some (js ''more'')) addendum_pdf marine_world"
  let ?rb = "reconcile all_ok (js ''a@x.com'') [] None addendum_pdf marine_world"
  let ?rc = "reconcile all_ok (js ''a@x.com'') [] (Some []) addendum_pdf marine_world"
  have fa: "fst ?ra = Inr (?c, Some 0)" by code_simp
  have fb: "fst ?rb = Inr (?c, Some 0)" by code_simp
  have fc: "fst ?rc = Inr (?c, Some 0)" by code_simp
  have ha: "?ra = (Inr (?c, Some 0), snd ?ra)" using fa by (simp add: prod_eq_iff)
  have hb: "?rb = (Inr (?c, Some 0), snd ?rb)" using fb by (simp add: prod_eq_iff)
  have hc: "?rc = (Inr (?c, Some 0), snd ?rc)" using fc by (simp add: prod_eq_iff)
  have n: "row_notes (submissions marine_world ! 0) = js ''first''"
    by code_simp
  from merge_notes_policy [OF ha] n
  have a: "row_notes (submissions (snd ?ra) ! 0) = js ''first'' @ [10] @ js ''more''"
    by (simp add: truthy_def or_empty_def js_not_empty)
  from merge_notes_policy [OF hb] n
  have b: "row_notes (submissions (snd ?rb) ! 0) = js ''first''"
    by (simp add: truthy_def)
  from merge_notes_policy [OF hc] n
  have c: "row_notes (submissions (snd ?rc) ! 0) = js ''first''"
    by (simp add: truthy_def)
  from fa n a b c show ?thesis by simp
qed

lemma upsert_submissions_cases:
  "submissions (snd (upsert oc email info att link w)) = submissions w \<or>
   (\<exists>i. findSubmissionByEmail email w = Some i \<and>
        submissions (snd (upsert oc email info att link w)) =
          (submissions w)[i := merged_row (submissions w ! i) email info att link]) \<or>
   submissions (snd (upsert oc email info att link w)) =
     submissions w @ [created_row email info att link]"
  by (auto simp: upsert_def issue_def Let_def split: option.splits)

lemma reconcile_submissions_cases:
  "submissions (snd (reconcile oc email ec info att w)) = submissions w \<or>
   (\<exists>i link. findSubmissionByEmail email w = Some i \<and>
        submissions (snd (reconcile oc email ec info att w)) =
          (submissions w)[i := merged_row (submissions w ! i) email info att link]) \<or>
   (\<exists>link. submissions (snd (reconcile oc email ec info att w)) =
     submissions w @ [created_row email info att link])"
proof (cases "resolve_linked_class oc ec w")
  case (Pair res w1)
  have s: "submissions w1 = submissions w"
    using resolve_linked_class_submissions [of oc ec w] Pair by simp
  show ?thesis
  proof (cases res)
    case (Inl err)
    with Pair s show ?thesis by (simp add: reconcile_def)
  next
    case (Inr cr)
    have f: "findSubmissionByEmail email w1 = findSubmissionByEmail email w"
      by (simp add: findSubmissionByEmail_def s)
    have r: "submissions (snd (reconcile oc email ec info att w)) =
             submissions (snd (upsert oc email info att (classLink cr) w1))"
      using Pair Inr by (simp add: reconcile_def split: prod.splits sum.splits)
    from upsert_submissions_cases [of oc email info att "classLink cr" w1]
    show ?thesis unfolding r f s by blast
  qed
qed

text \<open>
  One reconciliation, whatever its outcome: every row that was there is still there,
  at the same position, and its identity is the same up to letter case.
\<close>

lemma reconcile_keeps_identity_up_to_case:
  assumes "i < length (submissions w)"
  shows "i < length (submissions (snd (reconcile oc email ec info att w))) \<and>
         lower (row_email (submissions (snd (reconcile oc email ec info att w)) ! i)) =
           lower (row_email (submissions w ! i))"
proof -
  let ?s' = "submissions (snd (reconcile oc email ec info att w))"
  from reconcile_submissions_cases [of oc email ec info att w]
  consider (same) "?s' = submissions w"
    | (merged) j link where "findSubmissionByEmail email w = Some j"
        "?s' = (submissions w)[j := merged_row (submissions w ! j) email info att link]"
    | (created) link where "?s' = submissions w @ [created_row email info att link]"
    by blast
  then show ?thesis
  proof cases
    case same
    with assms show ?thesis by simp
  next
    case merged
    from merged(1) have "lower (row_email (submissions w ! j)) = lower email"
      using first_index_Some_holds [of "\<lambda>r. lower (row_email r) = lower email" "submissions w" j]
      by (simp add: findSubmissionByEmail_def)
    with assms merged(2) show ?thesis
      by (cases "i = j") (simp_all add: merged_row_email)
  next
    case created
    with assms show ?thesis by (simp add: nth_append)
  qed
qed

text \<open>
  Claim C5, as the code has it. The claim: the identity of a stored record never changes,
  also not when a merge is triggered by an identity that differs in letter case. The
  code writes the submitter identity of the merging submission into the row on every
  merge, so the stored identity does change, but only in letter case: through every
  sequence of reconciliations, whatever their outcomes, each row stays in place and its
  lower-cased identity stays the same.
\<close>

theorem identity_kept_up_to_case:
  assumes "i < length (submissions w)"
  shows "i < length (submissions (reconcile_all rs w)) \<and>
         lower (row_email (submissions (reconcile_all rs w) ! i)) =
           lower (row_email (submissions w ! i))"
  using assms
proof (induction rs arbitrary: w)
  case Nil
  then show ?case by simp
next
  case (Cons r rs)
  let ?w1 = "snd (reconcile (with_outcomes r) (of_email r) (of_class r) (of_notes r)
                    (of_artifact r) w)"
  from reconcile_keeps_identity_up_to_case [OF Cons.prems] have
    l: "i < length (submissions ?w1)" and
    e: "lower (row_email (submissions ?w1 ! i)) = lower (row_email (submissions w ! i))"
    by simp_all
  from Cons.IH [OF l] e show ?case by simp
qed

theorem identity_kept_up_to_case_witness:
  "0 < length (submissions marine_world) \<and>
   lower (row_email (submissions
       (reconcile_all
          [\<lparr>with_outcomes = all_ok, of_email = js ''a@x.com'', of_class = [], of_notes = None,
            of_artifact = addendum_pdf\<rparr>,
           \<lparr>with_outcomes = all_ok, of_email = js ''b@x.com'', of_class = js ''Fire'', of_notes = None,
            of_artifact = report_pdf\<rparr>] marine_world) ! 0)) = js ''a@x.com''"
proof -
  have l: "0 < length (submissions marine_world)"
    by (simp add: marine_world_def)
  have e: "lower (row_email (submissions marine_world ! 0)) = js ''a@x.com''"
    by code_simp
  let ?rs = "[\<lparr>with_outcomes = all_ok, of_email = js ''a@x.com'', of_class = [], of_notes = None,
               of_artifact = addendum_pdf\<rparr>,
              \<lparr>with_outcomes = all_ok, of_email = js ''b@x.com'', of_class = js ''Fire'', of_notes = None,
               of_artifact = report_pdf\<rparr>]"
  have r: "lower (row_email (submissions (reconcile_all ?rs marine_world) ! 0)) =
           lower (row_email (submissions marine_world ! 0))"
    using identity_kept_up_to_case [OF l, of ?rs] by (rule conjunct2)
  have "lower (row_email (submissions (reconcile_all ?rs marine_world) ! 0)) = js ''a@x.com''"
    using r e by (rule trans)
  with l show ?thesis by (rule conjI)
qed

text \<open>
  The stored identity \<^verbatim>\<open>A@x.com\<close> is replaced by \<^verbatim>\<open>a@x.com\<close> when a submission with that
  spelling merges into the record.
\<close>

theorem identity_changes_in_case_counterexample:
  "row_email (submissions marine_world ! 0) = js ''A@x.com'' \<and>
   row_email (submissions
       (reconcile_all
          [\<lparr>with_outcomes = all_ok, of_email = js ''a@x.com'', of_class = [], of_notes = None,
            of_artifact = addendum_pdf\<rparr>] marine_world) ! 0) = js ''a@x.com'' \<and>
   row_email (submissions
       (reconcile_all
          [\<lparr>with_outcomes = all_ok, of_email = js ''a@x.com'', of_class = [], of_notes = None,
            of_artifact = addendum_pdf\<rparr>] marine_world) ! 0) \<noteq>
     row_email (submissions marine_world ! 0)"
  by code_simp

lemma getOrCreate_trace:
  assumes "getOrCreateClassIdByName oc name w = (Inr cid, w1)"
  shows "trace w1 = trace w @
           (if name \<noteq> [] \<and> find (\<lambda>r. lower (class_name r) = lower name) (classes w) = None
            then [CreateClass name] else [])"
  using assms
  by (auto simp: getOrCreateClassIdByName_def issue_def Let_def split: if_splits option.splits)

lemma resolve_linked_class_trace:
  assumes "resolve_linked_class oc ec w = (Inr cr, w1)"
  shows "trace w1 = trace w @
           (if ec \<noteq> [] \<and> \<not> looks_like_record_id ec \<and>
               find (\<lambda>r. lower (class_name r) = lower ec) (classes w) = None
            then [CreateClass ec] else [])"
proof (cases "ec = [] \<or> looks_like_record_id ec")
  case True
  with assms show ?thesis
    by (auto simp: resolve_linked_class_def resolve_classRecordId_def Let_def
             split: if_splits option.splits)
next
  case False
  then have r: "resolve_classRecordId oc ec w = getOrCreateClassIdByName oc ec w"
    by (simp add: resolve_classRecordId_def)
  from assms False obtain cid where "getOrCreateClassIdByName oc ec w = (Inr cid, w1)"
    unfolding resolve_linked_class_def r Let_def
    by (auto split: prod.splits sum.splits option.splits if_splits)
  from getOrCreate_trace [OF this] False show ?thesis by simp
qed

lemma reconcile_trace:
  assumes "reconcile oc email ec info att w = (Inr (cr, x), w')"
  shows "trace w' = trace w @
           (if ec \<noteq> [] \<and> \<not> looks_like_record_id ec \<and>
               find (\<lambda>r. lower (class_name r) = lower ec) (classes w) = None
            then [CreateClass ec] else []) @
           [case x of None \<Rightarrow> CreateSubmission | Some i \<Rightarrow> UpdateSubmission i]"
proof -
  from reconcile_InrD [OF assms] obtain w1 where
    r: "resolve_linked_class oc ec w = (Inr cr, w1)" and
    u: "upsert oc email info att (classLink cr) w1 = (Inr x, w')"
    by blast
  have "trace w' = trace w1 @ [case x of None \<Rightarrow> CreateSubmission | Some i \<Rightarrow> UpdateSubmission i]"
  proof (cases x)
    case None
    with upsert_create [of oc email info att "classLink cr" w1 w'] u show ?thesis by simp
  next
    case (Some i)
    with upsert_merge [of oc email info att "classLink cr" w1 i w'] u show ?thesis by simp
  qed
  with resolve_linked_class_trace [OF r] show ?thesis by simp
qed

text \<open>
  Claim C9, as the code has it. The claim: every reconciliation performs exactly one
  write to the record store. The code: a reconciliation that completes writes the
  submissions table exactly once (a create or an update), and before that it creates a
  category whenever the class text is not empty, does not look like a record id and
  matches no category name; so it performs one write or two.
\<close>

theorem reconcile_store_writes:
  assumes "reconcile oc email ec info att w = (Inr (cr, x), w')"
  shows "store_writes w' = store_writes w @
           (if ec \<noteq> [] \<and> \<not> looks_like_record_id ec \<and>
               find (\<lambda>r. lower (class_name r) = lower ec) (classes w) = None
            then [CreateClass ec] else []) @
           [case x of None \<Rightarrow> CreateSubmission | Some i \<Rightarrow> UpdateSubmission i]"
  unfolding store_writes_def reconcile_trace [OF assms]
  by (simp split: option.splits)

text \<open>A merge with a known category writes once; so does one with no class at all.\<close>

theorem reconcile_store_writes_witness:
  "fst (reconcile all_ok (js ''a@x.com'') (js ''marine'') None addendum_pdf marine_world) =
     Inr (\<lparr>classLink = [js ''recMARINE00000001''], classRecordId = Some (js ''recMARINE00000001''),
           classDisplayName = js ''Marine''\<rparr>, Some 0) \<and>
   store_writes (snd (reconcile all_ok (js ''a@x.com'') (js ''marine'') None addendum_pdf marine_world)) =
     [UpdateSubmission 0]"
proof -
  let ?r = "reconcile all_ok (js ''a@x.com'') (js ''marine'') None addendum_pdf marine_world"
  let ?c = "\<lparr>classLink = [js ''recMARINE00000001''], classRecordId = Some (js ''recMARINE00000001''),
            classDisplayName = js ''Marine''\<rparr>"
  have f: "fst ?r = Inr (?c, Some 0)"
    by code_simp
  then have h: "?r = (Inr (?c, Some 0), snd ?r)"
    by (simp add: prod_eq_iff)
  have n: "store_writes marine_world = []"
    by code_simp
  have k: "find (\<lambda>r. lower (class_name r) = lower (js ''marine'')) (classes marine_world) \<noteq> None"
    by code_simp
  from reconcile_store_writes [OF h] n k
  have "store_writes (snd ?r) = [UpdateSubmission 0]"
    by simp
  with f show ?thesis by simp
qed

text \<open>
  A first submission with a class name that the category table does not know: the
  reconciliation completes with two writes, the category and the submission.
\<close>

theorem reconcile_two_writes_counterexample:
  "fst (reconcile all_ok (js ''b@x.com'') (js ''Fire'') None report_pdf marine_world) =
     Inr (\<lparr>classLink = [js ''recNEWCLASS000001''], classRecordId = Some (js ''recNEWCLASS000001''),
           classDisplayName = js ''Fire''\<rparr>, None) \<and>
   store_writes marine_world = [] \<and>
   store_writes (snd (reconcile all_ok (js ''b@x.com'') (js ''Fire'') None report_pdf marine_world)) =
     [CreateClass (js ''Fire''), CreateSubmission] \<and>
   length (store_writes (snd (reconcile all_ok (js ''b@x.com'') (js ''Fire'') None report_pdf marine_world))) = 2"
  by code_simp

section \<open>Classification\<close>

text \<open>
  Claim C6, as the code has it. The claim: an explicit class that is not empty after
  trimming is returned unchanged. The code returns it trimmed. With that, for a class
  and an identity that are strings: an explicit class that is not blank is returned
  trimmed of the white space of \<^verbatim>\<open>String.prototype.trim\<close>, whatever the directory holds;
  with no explicit class (undefined or blank) and a directory configured, the class of
  the first entry whose identity is the submitter's up to letter case is returned
  trimmed, if it has one; and with no such entry the result is the empty string and not
  an error, as long as the directory query itself does not fail.
\<close>

theorem effectiveClass_resolution:
  "(trim (or_empty cob) \<noteq> [] \<longrightarrow>
      effectiveClass e oc w (map_option Str cob) email = Inr (trim (or_empty cob))) \<and>
   (trim (or_empty cob) = [] \<and> truthy (AIRTABLE_APPLICANTS_TABLE_ID e) \<and>
    \<not> applicants_query_fails oc \<longrightarrow>
      effectiveClass e oc w (map_option Str cob) (Str em) =
        Inr (case find (\<lambda>r. lower (applicant_email r) = lower em) (applicants w) of
               None \<Rightarrow> []
             | Some r \<Rightarrow> if truthy (applicant_class r) then trim (or_empty (applicant_class r))
                          else [])) \<and>
   (trim (or_empty cob) = [] \<and> \<not> applicants_query_fails oc \<and>
    find (\<lambda>r. lower (applicant_email r) = lower em) (applicants w) = None \<longrightarrow>
      effectiveClass e oc w (map_option Str cob) (Str em) = Inr [])"
  by (cases cob)
     (auto simp: effectiveClass_def Let_def truthy_def or_empty_def split: option.splits)

text \<open>
  An explicit class wins over the directory entry, and loses its spaces, also a no-break
  space in front and a byte order mark behind; without one, and with one that is a
  single no-break space, the entry of \<^verbatim>\<open>A@x.com\<close> is found for \<^verbatim>\<open>a@X.COM\<close>; an unknown
  identity gets the empty class.
\<close>

theorem effectiveClass_resolution_witness:
  "effectiveClass env_both all_ok directory_world (Some (Str (js '' Marine '')))
       (Str (js ''a@X.COM'')) = Inr (js ''Marine'') \<and>
   effectiveClass env_both all_ok directory_world (Some (Str ([160] @ js ''Marine'' @ [65279])))
       (Str (js ''a@X.COM'')) = Inr (js ''Marine'') \<and>
   effectiveClass env_both all_ok directory_world (Some (Str [160])) (Str (js ''a@X.COM'')) =
     Inr (js ''Fire'') \<and>
   effectiveClass env_both all_ok directory_world None (Str (js ''a@X.COM'')) = Inr (js ''Fire'') \<and>
   effectiveClass env_both all_ok directory_world None (Str (js ''nobody@x.com'')) = Inr []"
proof -
  have t1: "trim (or_empty (Some (js '' Marine ''))) = js ''Marine''" by code_simp
  have t2: "trim (or_empty (Some ([160] @ js ''Marine'' @ [65279]))) = js ''Marine''"
    by code_simp
  have t3: "trim (or_empty (Some [160])) = []" by code_simp
  have t4: "trim (or_empty None) = []" by code_simp
  have m: "js ''Marine'' \<noteq> []" by (rule js_not_empty)
  have k: "truthy (AIRTABLE_APPLICANTS_TABLE_ID env_both)" by code_simp
  have o: "\<not> applicants_query_fails all_ok" by code_simp
  have f2: "find (\<lambda>r. lower (applicant_email r) = lower (js ''a@X.COM''))
              (applicants directory_world) =
            Some \<lparr>applicant_email = js ''A@x.com'', applicant_class = Some (js '' Fire '')\<rparr>"
    by code_simp
  have f3: "find (\<lambda>r. lower (applicant_email r) = lower (js ''nobody@x.com''))
              (applicants directory_world) = None"
    by code_simp
  have c: "truthy (Some (js '' Fire '')) \<and> trim (or_empty (Some (js '' Fire ''))) = js ''Fire''"
    by code_simp
  have a1: "effectiveClass env_both all_ok directory_world (Some (Str (js '' Marine '')))
              (Str (js ''a@X.COM'')) = Inr (js ''Marine'')"
    using effectiveClass_resolution
      [where cob = "Some (js '' Marine '')" and e = env_both and oc = all_ok
         and w = directory_world and email = "Str (js ''a@X.COM'')"]
      t1 m by simp
  have a2: "effectiveClass env_both all_ok directory_world
              (Some (Str ([160] @ js ''Marine'' @ [65279]))) (Str (js ''a@X.COM'')) =
            Inr (js ''Marine'')"
    using effectiveClass_resolution
      [where cob = "Some ([160] @ js ''Marine'' @ [65279])" and e = env_both and oc = all_ok
         and w = directory_world and email = "Str (js ''a@X.COM'')"]
      t2 m by simp
  have b1: "effectiveClass env_both all_ok directory_world (Some (Str [160]))
              (Str (js ''a@X.COM'')) = Inr (js ''Fire'')"
    using effectiveClass_resolution
      [where cob = "Some [160]" and e = env_both and oc = all_ok and w = directory_world
         and em = "js ''a@X.COM''"]
      t3 k o f2 c by simp
  have b2: "effectiveClass env_both all_ok directory_world None (Str (js ''a@X.COM'')) =
            Inr (js ''Fire'')"
    using effectiveClass_resolution
      [where cob = None and e = env_both and oc = all_ok and w = directory_world
         and em = "js ''a@X.COM''"]
      t4 k o f2 c by simp
  have d: "effectiveClass env_both all_ok directory_world None (Str (js ''nobody@x.com'')) =
           Inr []"
    using effectiveClass_resolution
      [where cob = None and e = env_both and oc = all_ok and w = directory_world
         and em = "js ''nobody@x.com''"]
      t4 o f3 by simp
  from a1 a2 b1 b2 d show ?thesis by simp
qed

text \<open>The explicit class \<^verbatim>\<open>' Marine '\<close> is not returned unchanged.\<close>

theorem effectiveClass_trims_counterexample:
  "trim (js '' Marine '') \<noteq> [] \<and>
   effectiveClass env_both all_ok empty_world (Some (Str (js '' Marine ''))) (Str (js ''a@x.com'')) =
     Inr (js ''Marine'') \<and>
   effectiveClass env_both all_ok empty_world (Some (Str (js '' Marine ''))) (Str (js ''a@x.com'')) \<noteq>
     Inr (js '' Marine '')"
  by code_simp

text \<open>The pattern of a record id: \<^verbatim>\<open>rec\<close> and fourteen letters or digits.\<close>

lemma looks_like_record_id_iff:
  "looks_like_record_id s \<longleftrightarrow>
     (\<exists>t. s = js ''rec'' @ t \<and> length t = 14 \<and> list_all is_alnum t)"
proof
  assume a: "looks_like_record_id s"
  then have "s = take 3 s @ drop 3 s" by simp
  with a have "s = js ''rec'' @ drop 3 s \<and> length (drop 3 s) = 14 \<and> list_all is_alnum (drop 3 s)"
    by (simp add: looks_like_record_id_def)
  then show "\<exists>t. s = js ''rec'' @ t \<and> length t = 14 \<and> list_all is_alnum t" by blast
next
  assume "\<exists>t. s = js ''rec'' @ t \<and> length t = 14 \<and> list_all is_alnum t"
  then show "looks_like_record_id s"
    by (auto simp: looks_like_record_id_def length_js)
qed

text \<open>
  Claim C7. For a class text that is not empty: a text of the shape of a record id is
  the reference itself and the store is not touched; any other text is looked up among
  the category names, ignoring case, and the id of the first match is returned, again
  without a write; only when there is no match a category with exactly that name is
  created and its new id returned. (The lookup and the creation are calls to the store
  and can fail; then the failure is the result.)
\<close>

theorem category_resolution:
  assumes "ec \<noteq> []"
  shows "(looks_like_record_id ec \<longrightarrow> resolve_classRecordId oc ec w = (Inr (Some ec), w)) \<and>
         (\<not> looks_like_record_id ec \<and> \<not> class_lookup_fails oc \<longrightarrow>
            (case find (\<lambda>r. lower (class_name r) = lower ec) (classes w) of
               Some r \<Rightarrow> resolve_classRecordId oc ec w = (Inr (Some (class_id r)), w)
             | None \<Rightarrow>
                 \<not> class_create_fails oc \<longrightarrow>
                 resolve_classRecordId oc ec w =
                   (Inr (Some (new_class_id oc)),
                    (issue (CreateClass ec) w)
                      \<lparr>classes := classes w @ [\<lparr>class_id = new_class_id oc, class_name = ec\<rparr>]\<rparr>)))"
  using assms
  by (auto simp: resolve_classRecordId_def getOrCreateClassIdByName_def issue_def Let_def
           split: option.splits)

text \<open>
  In \<open>marine_world\<close>: an id is taken as it is, \<^verbatim>\<open>MARINE\<close> finds the category Marine, and
  \<^verbatim>\<open>Fire\<close> is created.
\<close>

theorem category_resolution_witness:
  "looks_like_record_id (js ''recABCDEFGH123456'') \<and>
   resolve_classRecordId all_ok (js ''recABCDEFGH123456'') marine_world =
     (Inr (Some (js ''recABCDEFGH123456'')), marine_world) \<and>
   resolve_classRecordId all_ok (js ''MARINE'') marine_world =
     (Inr (Some (js ''recMARINE00000001'')), marine_world) \<and>
   resolve_classRecordId all_ok (js ''Fire'') marine_world =
     (Inr (Some (js ''recNEWCLASS000001'')),
      (issue (CreateClass (js ''Fire'')) marine_world)
        \<lparr>classes := classes marine_world @
           [\<lparr>class_id = js ''recNEWCLASS000001'', class_name = js ''Fire''\<rparr>]\<rparr>)"
proof -
  have l1: "looks_like_record_id (js ''recABCDEFGH123456'')" by code_simp
  have l2: "\<not> looks_like_record_id (js ''MARINE'')" by code_simp
  have l3: "\<not> looks_like_record_id (js ''Fire'')" by code_simp
  have o: "\<not> class_lookup_fails all_ok" "\<not> class_create_fails all_ok"
    by (simp_all add: all_ok_def)
  have n: "new_class_id all_ok = js ''recNEWCLASS000001''"
    by (simp add: all_ok_def)
  have f2: "find (\<lambda>r. lower (class_name r) = lower (js ''MARINE'')) (classes marine_world) =
            Some \<lparr>class_id = js ''recMARINE00000001'', class_name = js ''Marine''\<rparr>"
    by code_simp
  have f3: "find (\<lambda>r. lower (class_name r) = lower (js ''Fire'')) (classes marine_world) = None"
    by code_simp
  have a: "resolve_classRecordId all_ok (js ''recABCDEFGH123456'') marine_world =
           (Inr (Some (js ''recABCDEFGH123456'')), marine_world)"
    using category_resolution [of "(js ''recABCDEFGH123456'')" all_ok marine_world] l1
    by (simp add: js_not_empty)
  have b: "resolve_classRecordId all_ok (js ''MARINE'') marine_world =
           (Inr (Some (js ''recMARINE00000001'')), marine_world)"
    using category_resolution [of "(js ''MARINE'')" all_ok marine_world] l2 o f2
    by (simp add: js_not_empty)
  have c: "resolve_classRecordId all_ok (js ''Fire'') marine_world =
           (Inr (Some (js ''recNEWCLASS000001'')),
            (issue (CreateClass (js ''Fire'')) marine_world)
              \<lparr>classes := classes marine_world @
                 [\<lparr>class_id = js ''recNEWCLASS000001'', class_name = js ''Fire''\<rparr>]\<rparr>)"
    using category_resolution [of "(js ''Fire'')" all_ok marine_world] l3 o f3 n
    by (simp add: js_not_empty)
  from l1 a b c show ?thesis by simp
qed

section \<open>Recipients and the response\<close>

lemma mail_recipients_append:
  "mail_recipients (xs @ ys) = mail_recipients xs @ mail_recipients ys"
  by (simp add: mail_recipients_def)

lemma mail_recipients_smtp:
  "mail_recipients (map (\<lambda>to. SmtpSend to subject html) list) = list"
  by (induction list) (simp_all add: mail_recipients_def)

lemma sendEmailBrevo_recipients:
  "truthy (BREVO_API_KEY e) \<Longrightarrow>
   mail_recipients (trace (snd (sendEmailBrevo e oc list subject html w))) =
     mail_recipients (trace w) @ list"
  by (simp add: sendEmailBrevo_def issue_def Let_def mail_recipients_def
           split: brevo_outcome.splits)

lemma smtp_all_recipients:
  "mail_recipients (trace (snd (smtp_all (Some tr) oc list subject html w))) =
     mail_recipients (trace w) @ list"
  by (simp add: smtp_all_def Let_def mail_recipients_append mail_recipients_smtp
           split: option.splits)

text \<open>Whichever transport is used, the mails go to the list that was passed.\<close>

lemma sendEmails_recipients:
  "mail_recipients (trace (snd (sendEmails e oc list subject html w))) =
     mail_recipients (trace w) @ list"
proof (cases "truthy (BREVO_API_KEY e)")
  case True
  have t: "transporter e = None"
    using True by (simp add: transporter_def)
  have "sendEmails e oc list subject html w = sendEmailBrevo e oc list subject html w"
    using True t by (simp add: sendEmails_def split: prod.splits sum.splits)
  with sendEmailBrevo_recipients [OF True] show ?thesis by simp
next
  case False
  then obtain tr where "transporter e = Some tr"
    by (simp add: transporter_def)
  with False smtp_all_recipients show ?thesis
    by (simp add: sendEmails_def)
qed

lemma notify_recipients:
  "mail_recipients (trace (notify e oc list subject html w)) = mail_recipients (trace w) @ list"
  by (simp add: notify_def sendEmails_recipients)

lemma s3_send_trace:
  "trace (snd (s3_send oc key w)) = trace w @ [PutObject key]"
  by (simp add: s3_send_def issue_def Let_def)

text \<open>The reconciliation sends no mail, whatever its outcome.\<close>

lemma resolve_linked_class_mails:
  "mail_recipients (trace (snd (resolve_linked_class oc ec w))) = mail_recipients (trace w)"
proof -
  have "mail_recipients (trace (snd (getOrCreateClassIdByName oc ec w))) =
        mail_recipients (trace w)"
    by (simp add: getOrCreateClassIdByName_def issue_def Let_def mail_recipients_def
          split: option.splits)
  then have "mail_recipients (trace (snd (resolve_classRecordId oc ec w))) =
             mail_recipients (trace w)"
    by (simp add: resolve_classRecordId_def)
  then show ?thesis
    by (auto simp: resolve_linked_class_def Let_def split: prod.splits sum.splits option.splits)
qed

lemma upsert_mails:
  "mail_recipients (trace (snd (upsert oc email info att link w))) = mail_recipients (trace w)"
  by (simp add: upsert_def issue_def Let_def mail_recipients_def split: option.splits)

lemma upsert_other_mails:
  "mail_recipients (trace (snd (upsert_other oc email t att link w))) = mail_recipients (trace w)"
  by (simp add: upsert_other_def issue_def Let_def mail_recipients_def split: option.splits)

lemma reconcile_mails:
  "mail_recipients (trace (snd (reconcile oc email ec info att w))) = mail_recipients (trace w)"
proof (cases "resolve_linked_class oc ec w")
  case (Pair r w1)
  have m: "mail_recipients (trace w1) = mail_recipients (trace w)"
    using resolve_linked_class_mails [of oc ec w] Pair by simp
  show ?thesis
  proof (cases r)
    case (Inl err)
    with Pair m show ?thesis by (simp add: reconcile_def)
  next
    case (Inr cr)
    have "snd (reconcile oc email ec info att w) =
          snd (upsert oc email info att (classLink cr) w1)"
      using Pair Inr by (simp add: reconcile_def split: prod.splits sum.splits)
    with upsert_mails [of oc email info att "classLink cr" w1] m show ?thesis by simp
  qed
qed

lemma reconcile_form_mails:
  "mail_recipients (trace (snd (reconcile_form oc email ec info att w))) =
   mail_recipients (trace w)"
proof (cases "resolve_linked_class oc ec w")
  case (Pair r w1)
  have m: "mail_recipients (trace w1) = mail_recipients (trace w)"
    using resolve_linked_class_mails [of oc ec w] Pair by simp
  show ?thesis
  proof (cases email)
    case (Other t)
    with Pair m show ?thesis
      by (cases r) (simp_all add: reconcile_form_def)
  next
    case (Str em)
    show ?thesis
    proof (cases "is_text info")
      case True
      then have "reconcile_form oc email ec info att w = reconcile oc em ec (text_of info) att w"
        using Str by (auto simp: reconcile_form_def is_text_def split: option.splits field.splits)
      with reconcile_mails show ?thesis by simp
    next
      case False
      then obtain t where i: "info = Some (Other t)"
        by (auto simp: is_text_def split: option.splits field.splits)
      show ?thesis
      proof (cases r)
        case (Inl err)
        with Pair m Str i show ?thesis by (simp add: reconcile_form_def)
      next
        case (Inr cr)
        have "snd (reconcile_form oc email ec info att w) =
              snd (upsert_other oc em t att (classLink cr) w1)"
          using Pair Inr Str i by (simp add: reconcile_form_def split: prod.splits sum.splits)
        with upsert_other_mails [of oc em t att "classLink cr" w1] m show ?thesis by simp
      qed
    qed
  qed
qed

text \<open>
  A request that is answered by the handler's last line has sent its mails to the
  notify list made from some result of the recipient lookup, and to nobody else.
\<close>

lemma handle_upload_mails:
  assumes "handle_upload e oc req email f w = (Inr resp, w')"
  shows "\<exists>cr w2 m. matchedRecipients e oc cr w2 = Inr m \<and>
           mail_recipients (trace w') = mail_recipients (trace w) @ notifyList e m"
proof -
  let ?key = "object_key oc (originalname f)"
  let ?att = "\<lparr>att_url = publicUrl e ?key, att_filename = originalname f\<rparr>"
  from assms obtain ec where ec: "effectiveClass e oc w (classOfBusiness req) email = Inr ec"
    by (auto simp: handle_upload_def split: sum.splits)
  from assms ec obtain u w1 where s3: "s3_send oc ?key w = (Inr u, w1)"
    by (auto simp: handle_upload_def Let_def split: sum.splits prod.splits)
  from assms ec s3 obtain cr x w2 where
    rc: "reconcile_form oc email ec (moreInfo req) ?att w1 = (Inr (cr, x), w2)"
    by (auto simp: handle_upload_def Let_def split: sum.splits prod.splits)
  from assms ec s3 rc obtain m where m: "matchedRecipients e oc cr w2 = Inr m"
    by (auto simp: handle_upload_def Let_def split: sum.splits prod.splits)
  from assms ec s3 rc m obtain html where
    "mail_html_form email (classDisplayName cr) (moreInfo req) (publicUrl e ?key) (originalname f) =
       Inr html"
    and w': "w' = notify e oc (notifyList e m) (mail_subject (classDisplayName cr)) html w2"
    by (auto simp: handle_upload_def Let_def split: sum.splits prod.splits)
  have t1: "trace w1 = trace w @ [PutObject ?key]"
    using s3_send_trace [of oc ?key w] s3 by simp
  have "mail_recipients (trace w2) = mail_recipients (trace w1)"
    using reconcile_form_mails [of oc email ec "moreInfo req" ?att w1] rc by simp
  also have "\<dots> = mail_recipients (trace w)"
    by (simp add: t1 mail_recipients_def)
  finally have "mail_recipients (trace w') = mail_recipients (trace w) @ notifyList e m"
    by (simp add: w' notify_recipients)
  with m show ?thesis by blast
qed

lemma upload_200:
  assumes "upload e oc req w = ((200, body), w')"
  shows "\<exists>email f. handle_upload e oc req email f w = (Inr (200, body), w')"
  using assms
  by (auto simp: upload_def split: if_splits option.splits prod.splits sum.splits)

text \<open>
  Claim C8. With the operator override set, the notify list is the one-element list of
  the override address for every list of matched recipients, and a request that is
  answered with 200 has sent its mails to exactly that address: the matched recipients
  are replaced, not merged.
\<close>

theorem override_replaces_recipients:
  assumes "truthy (OVERRIDE_NOTIFICATION_EMAIL e)"
  shows "notifyList e matched = [or_empty (OVERRIDE_NOTIFICATION_EMAIL e)] \<and>
         (upload e oc req w = ((200, body), w') \<longrightarrow>
            mail_recipients (trace w') =
              mail_recipients (trace w) @ [or_empty (OVERRIDE_NOTIFICATION_EMAIL e)])"
proof -
  have n: "notifyList e m = [or_empty (OVERRIDE_NOTIFICATION_EMAIL e)]" for m
    using assms by (simp add: notifyList_def)
  have "mail_recipients (trace w') =
          mail_recipients (trace w) @ [or_empty (OVERRIDE_NOTIFICATION_EMAIL e)]"
    if "upload e oc req w = ((200, body), w')"
  proof -
    from upload_200 [OF that] obtain email f where
      "handle_upload e oc req email f w = (Inr (200, body), w')"
      by blast
    from handle_upload_mails [OF this] n show ?thesis by auto
  qed
  with n show ?thesis by blast
qed

text \<open>
  In \<open>marine_world\<close> the category Marine has the two underwriters \<^verbatim>\<open>u1@ins.com\<close> and
  \<^verbatim>\<open>u2@ins.com\<close>; with the override set the mail of a Marine submission goes to the
  override address alone.
\<close>

theorem override_replaces_recipients_witness:
  "truthy (OVERRIDE_NOTIFICATION_EMAIL env_override) \<and>
   matchedRecipients env_override all_ok
       \<lparr>classLink = [js ''recMARINE00000001''], classRecordId = Some (js ''recMARINE00000001''),
        classDisplayName = js ''Marine''\<rparr> marine_world = Inr [js ''u1@ins.com'', js ''u2@ins.com''] \<and>
   notifyList env_override [js ''u1@ins.com'', js ''u2@ins.com''] = [js ''ops@ins.example''] \<and>
   fst (upload env_override all_ok marine_request marine_world) =
     (200, js ''New record created and notifications sent.'') \<and>
   mail_recipients (trace (snd (upload env_override all_ok marine_request marine_world))) =
     [js ''ops@ins.example'']"
proof -
  let ?u = "upload env_override all_ok marine_request marine_world"
  have k: "truthy (OVERRIDE_NOTIFICATION_EMAIL env_override)"
    by code_simp
  have v: "or_empty (OVERRIDE_NOTIFICATION_EMAIL env_override) = js ''ops@ins.example''"
    by code_simp
  have m: "matchedRecipients env_override all_ok
       \<lparr>classLink = [js ''recMARINE00000001''], classRecordId = Some (js ''recMARINE00000001''),
        classDisplayName = js ''Marine''\<rparr> marine_world = Inr [js ''u1@ins.com'', js ''u2@ins.com'']"
    by code_simp
  have f: "fst ?u = (200, js ''New record created and notifications sent.'')"
    by code_simp
  then have h: "?u = ((200, js ''New record created and notifications sent.''), snd ?u)"
    by (simp add: prod_eq_iff)
  have t: "mail_recipients (trace marine_world) = []"
    by code_simp
  from override_replaces_recipients [OF k, of "[js ''u1@ins.com'', js ''u2@ins.com'']" all_ok
      marine_request marine_world "(js ''New record created and notifications sent.'')" "snd ?u"]
  have "notifyList env_override [js ''u1@ins.com'', js ''u2@ins.com''] = [js ''ops@ins.example''] \<and>
        mail_recipients (trace (snd ?u)) = [js ''ops@ins.example'']"
    using h v t by simp
  with k m f show ?thesis by simp
qed

text \<open>No step before the notification looks at what the mail transports will answer.\<close>

lemma effectiveClass_ignores_transport:
  "effectiveClass e (oc\<lparr>brevo := b, smtp_rejected := rj\<rparr>) w cob email =
   effectiveClass e oc w cob email"
  by (simp add: effectiveClass_def Let_def cong: if_cong option.case_cong field.case_cong)

lemma object_key_ignores_transport:
  "object_key (oc\<lparr>brevo := b, smtp_rejected := rj\<rparr>) name = object_key oc name"
  by (simp add: object_key_def)

lemma s3_send_ignores_transport:
  "s3_send (oc\<lparr>brevo := b, smtp_rejected := rj\<rparr>) key w = s3_send oc key w"
  by (simp add: s3_send_def Let_def cong: if_cong)

lemma getOrCreate_ignores_transport:
  "getOrCreateClassIdByName (oc\<lparr>brevo := b, smtp_rejected := rj\<rparr>) name w =
   getOrCreateClassIdByName oc name w"
  by (simp add: getOrCreateClassIdByName_def Let_def cong: if_cong option.case_cong)

lemma fetch_class_name_ignores_transport:
  "fetch_class_name (oc\<lparr>brevo := b, smtp_rejected := rj\<rparr>) shown cid w =
   fetch_class_name oc shown cid w"
  by (simp add: fetch_class_name_def cong: if_cong)

lemma resolve_linked_class_ignores_transport:
  "resolve_linked_class (oc\<lparr>brevo := b, smtp_rejected := rj\<rparr>) ec w =
   resolve_linked_class oc ec w"
  by (simp add: resolve_linked_class_def resolve_classRecordId_def getOrCreate_ignores_transport
        fetch_class_name_ignores_transport Let_def split: prod.splits sum.splits option.splits)

lemma upsert_ignores_transport:
  "upsert (oc\<lparr>brevo := b, smtp_rejected := rj\<rparr>) email info att link w =
   upsert oc email info att link w"
  by (simp add: upsert_def Let_def cong: if_cong option.case_cong)

lemma upsert_other_ignores_transport:
  "upsert_other (oc\<lparr>brevo := b, smtp_rejected := rj\<rparr>) email t att link w =
   upsert_other oc email t att link w"
  by (simp add: upsert_other_def Let_def split: option.splits)

lemma reconcile_ignores_transport:
  "reconcile (oc\<lparr>brevo := b, smtp_rejected := rj\<rparr>) email ec info att w =
   reconcile oc email ec info att w"
  by (simp add: reconcile_def resolve_linked_class_ignores_transport upsert_ignores_transport
        split: prod.splits sum.splits)

lemma reconcile_form_ignores_transport:
  "reconcile_form (oc\<lparr>brevo := b, smtp_rejected := rj\<rparr>) email ec info att w =
   reconcile_form oc email ec info att w"
  by (simp add: reconcile_form_def resolve_linked_class_ignores_transport
        upsert_other_ignores_transport reconcile_ignores_transport
        split: prod.splits sum.splits option.splits field.splits)

lemma matchedRecipients_ignores_transport:
  "matchedRecipients e (oc\<lparr>brevo := b, smtp_rejected := rj\<rparr>) cr w = matchedRecipients e oc cr w"
  by (simp add: matchedRecipients_def cong: if_cong)

lemma handle_upload_ignores_transport:
  "fst (handle_upload e (oc\<lparr>brevo := b, smtp_rejected := rj\<rparr>) req email f w) =
   fst (handle_upload e oc req email f w)"
  by (simp add: handle_upload_def effectiveClass_ignores_transport object_key_ignores_transport
        s3_send_ignores_transport reconcile_form_ignores_transport
        matchedRecipients_ignores_transport Let_def split: sum.splits prod.splits)

lemma upload_response:
  "fst (upload e oc req w) =
     (case submitterEmail req of
        None \<Rightarrow> (400, js ''Missing submitter email'')
      | Some email \<Rightarrow>
          if \<not> field_truthy (Some email) then (400, js ''Missing submitter email'')
          else case req_file req of
                 None \<Rightarrow> (400, js ''No file uploaded'')
               | Some f \<Rightarrow>
                   (case fst (handle_upload e oc req email f w) of
                      Inl err \<Rightarrow> (500, js ''Server error'')
                    | Inr resp \<Rightarrow> resp))"
  by (simp add: upload_def split: option.splits prod.splits sum.splits)

lemma upload_ignores_transport:
  "fst (upload e (oc\<lparr>brevo := b, smtp_rejected := rj\<rparr>) req w) = fst (upload e oc req w)"
  by (simp add: upload_response handle_upload_ignores_transport split: option.splits)

text \<open>
  When the fields of the form are strings and no call to the store or to the storage
  fails, every step returns.
\<close>

lemma effectiveClass_ok:
  "is_text cob \<Longrightarrow> \<not> applicants_query_fails oc \<Longrightarrow>
   \<exists>ec. effectiveClass e oc w cob (Str em) = Inr ec"
  by (auto simp: effectiveClass_def is_text_def Let_def split: option.splits field.splits)

lemma s3_send_ok:
  "\<not> s3_put_fails oc \<Longrightarrow>
   \<exists>w1. s3_send oc key w = (Inr (), w1) \<and> submissions w1 = submissions w"
  by (simp add: s3_send_def issue_def Let_def)

lemma resolve_linked_class_ok:
  assumes "\<not> class_lookup_fails oc" and "\<not> class_create_fails oc"
  shows "\<exists>cr w1. resolve_linked_class oc ec w = (Inr cr, w1)"
proof -
  have "\<exists>cid w1. getOrCreateClassIdByName oc ec w = (Inr cid, w1)"
    using assms by (simp add: getOrCreateClassIdByName_def Let_def split: option.splits)
  then have "\<exists>cid w1. resolve_classRecordId oc ec w = (Inr cid, w1)"
    by (simp add: resolve_classRecordId_def)
  then show ?thesis
    by (auto simp: resolve_linked_class_def Let_def split: option.splits)
qed

lemma upsert_ok:
  assumes "\<not> submission_lookup_fails oc" and "\<not> submission_write_fails oc"
  shows "\<exists>w'. upsert oc email info att link w = (Inr (findSubmissionByEmail email w), w')"
  using assms by (simp add: upsert_def Let_def split: option.splits)

lemma reconcile_ok:
  assumes "\<not> class_lookup_fails oc" and "\<not> class_create_fails oc"
      and "\<not> submission_lookup_fails oc" and "\<not> submission_write_fails oc"
  shows "\<exists>cr w'. reconcile oc email ec info att w = (Inr (cr, findSubmissionByEmail email w), w')"
proof -
  from resolve_linked_class_ok [OF assms(1,2)] obtain cr w1 where
    r: "resolve_linked_class oc ec w = (Inr cr, w1)"
    by blast
  have "submissions w1 = submissions w"
    using resolve_linked_class_submissions [of oc ec w] r by simp
  then have f: "findSubmissionByEmail email w1 = findSubmissionByEmail email w"
    by (simp add: findSubmissionByEmail_def)
  from upsert_ok [OF assms(3,4), of email info att "classLink cr" w1] obtain w' where
    "upsert oc email info att (classLink cr) w1 = (Inr (findSubmissionByEmail email w1), w')"
    by blast
  with r f show ?thesis by (simp add: reconcile_def)
qed

lemma reconcile_form_text:
  "is_text info \<Longrightarrow>
   reconcile_form oc (Str em) ec info att w = reconcile oc em ec (text_of info) att w"
  by (auto simp: reconcile_form_def is_text_def split: option.splits field.splits)

lemma mail_html_form_text:
  "is_text info \<Longrightarrow>
   mail_html_form (Str em) shown info url name = Inr (mail_html em shown (text_of info) url name)"
  by (auto simp: mail_html_form_def to_text_def is_text_def split: option.splits field.splits)

lemma matchedRecipients_ok:
  assumes "\<not> uw_by_ref_fails oc" and "\<not> uw_by_name_fails oc"
  shows "\<exists>m. matchedRecipients e oc cr w = Inr m"
  using assms by (simp add: matchedRecipients_def Let_def)

lemma handle_upload_ok:
  assumes "is_text (classOfBusiness req)" and "is_text (moreInfo req)"
      and "\<not> applicants_query_fails oc" and "\<not> s3_put_fails oc"
      and "\<not> class_lookup_fails oc" and "\<not> class_create_fails oc"
      and "\<not> submission_lookup_fails oc" and "\<not> submission_write_fails oc"
      and "\<not> uw_by_ref_fails oc" and "\<not> uw_by_name_fails oc"
  shows "fst (handle_upload e oc req (Str em) f w) =
           Inr (200, if findSubmissionByEmail em w \<noteq> None
                     then js ''Existing record updated and notifications sent.''
                     else js ''New record created and notifications sent.'')"
proof -
  let ?key = "object_key oc (originalname f)"
  let ?att = "\<lparr>att_url = publicUrl e ?key, att_filename = originalname f\<rparr>"
  from effectiveClass_ok [OF assms(1,3)] obtain ec where
    ec: "effectiveClass e oc w (classOfBusiness req) (Str em) = Inr ec"
    by blast
  from s3_send_ok [OF assms(4)] obtain w1 where
    s3: "s3_send oc ?key w = (Inr (), w1)" and s: "submissions w1 = submissions w"
    by blast
  from reconcile_ok [OF assms(5,6,7,8)] obtain cr w2 where
    "reconcile oc em ec (text_of (moreInfo req)) ?att w1 =
       (Inr (cr, findSubmissionByEmail em w1), w2)"
    by blast
  then have rc: "reconcile_form oc (Str em) ec (moreInfo req) ?att w1 =
                   (Inr (cr, findSubmissionByEmail em w1), w2)"
    by (simp add: reconcile_form_text [OF assms(2)])
  from matchedRecipients_ok [OF assms(9,10)] obtain m where
    m: "matchedRecipients e oc cr w2 = Inr m"
    by blast
  have f: "findSubmissionByEmail em w1 = findSubmissionByEmail em w"
    by (simp add: findSubmissionByEmail_def s)
  show ?thesis
    using ec s3 rc m f
    by (simp add: handle_upload_def Let_def mail_html_form_text [OF assms(2)])
qed

text \<open>
  Claim C10, as the code has it. The claim: when the request passes the two checks and
  the upload and the record write succeed, the answer is 200 even if every mail
  transport fails. The code looks the recipients up after the record write and outside
  the inner \<^verbatim>\<open>try\<close>, so a failure of that lookup is answered with 500; and it builds the
  mail body there too, which throws when the notes field is an array. For a form whose
  fields are strings, and with the lookups included: the answer never depends on what
  the mail transports do (this for every form), and when no call to the store or to the
  storage fails, it is 200 with the message for a created or an updated record.
\<close>

theorem notification_failure_never_changes_response:
  "fst (upload e (oc\<lparr>brevo := b, smtp_rejected := rj\<rparr>) req w) = fst (upload e oc req w) \<and>
   (submitterEmail req = Some (Str em) \<and> em \<noteq> [] \<and>
    is_text (classOfBusiness req) \<and> is_text (moreInfo req) \<and> req_file req \<noteq> None \<and>
    \<not> applicants_query_fails oc \<and> \<not> s3_put_fails oc \<and>
    \<not> class_lookup_fails oc \<and> \<not> class_create_fails oc \<and>
    \<not> submission_lookup_fails oc \<and> \<not> submission_write_fails oc \<and>
    \<not> uw_by_ref_fails oc \<and> \<not> uw_by_name_fails oc \<longrightarrow>
      fst (upload e oc req w) =
        (200, if findSubmissionByEmail em w \<noteq> None
              then js ''Existing record updated and notifications sent.''
              else js ''New record created and notifications sent.''))"
proof -
  have a: "fst (upload e (oc\<lparr>brevo := b, smtp_rejected := rj\<rparr>) req w) = fst (upload e oc req w)"
    by (rule upload_ignores_transport)
  have "fst (upload e oc req w) =
        (200, if findSubmissionByEmail em w \<noteq> None
              then js ''Existing record updated and notifications sent.''
              else js ''New record created and notifications sent.'')"
    if v: "submitterEmail req = Some (Str em)" "em \<noteq> []" "req_file req \<noteq> None"
      and t: "is_text (classOfBusiness req)" "is_text (moreInfo req)"
      and ok: "\<not> applicants_query_fails oc" "\<not> s3_put_fails oc"
        "\<not> class_lookup_fails oc" "\<not> class_create_fails oc"
        "\<not> submission_lookup_fails oc" "\<not> submission_write_fails oc"
        "\<not> uw_by_ref_fails oc" "\<not> uw_by_name_fails oc"
  proof -
    from v(3) obtain f where f: "req_file req = Some f" by blast
    from handle_upload_ok [OF t ok, where e = e and em = em and f = f and w = w]
    show ?thesis unfolding upload_response using v(1,2) f by (simp add: field_truthy_def)
  qed
  with a show ?thesis by blast
qed

text \<open>
  A Marine submission while the API answers 500 and the mail server would reject both
  underwriters: the answer is the one of the run where every mail is delivered.
\<close>

theorem notification_failure_never_changes_response_witness:
  "fst (upload env_both
          (all_ok\<lparr>brevo := BrevoResponse 500 (js ''down''),
                  smtp_rejected := [js ''u1@ins.com'', js ''u2@ins.com'']\<rparr>)
          marine_request marine_world) =
     (200, js ''New record created and notifications sent.'') \<and>
   fst (upload env_both all_ok marine_request marine_world) =
     (200, js ''New record created and notifications sent.'') \<and>
   mail_recipients (trace (snd (upload env_both
          (all_ok\<lparr>brevo := BrevoResponse 500 (js ''down''),
                  smtp_rejected := [js ''u1@ins.com'', js ''u2@ins.com'']\<rparr>)
          marine_request marine_world))) = [js ''u1@ins.com'', js ''u2@ins.com'']"
proof -
  let ?bad = "all_ok\<lparr>brevo := BrevoResponse 500 (js ''down''),
                     smtp_rejected := [js ''u1@ins.com'', js ''u2@ins.com'']\<rparr>"
  have v: "submitterEmail marine_request = Some (Str (js ''b@x.com''))" "js ''b@x.com'' \<noteq> []"
    "req_file marine_request \<noteq> None"
    "is_text (classOfBusiness marine_request)" "is_text (moreInfo marine_request)"
    by (simp_all add: marine_request_def is_text_def js_not_empty)
  have ok: "\<not> applicants_query_fails all_ok" "\<not> s3_put_fails all_ok"
    "\<not> class_lookup_fails all_ok" "\<not> class_create_fails all_ok"
    "\<not> submission_lookup_fails all_ok" "\<not> submission_write_fails all_ok"
    "\<not> uw_by_ref_fails all_ok" "\<not> uw_by_name_fails all_ok"
    by (simp_all add: all_ok_def)
  have n: "findSubmissionByEmail (js ''b@x.com'') marine_world = None"
    by code_simp
  from notification_failure_never_changes_response
         [where e = env_both and oc = all_ok and b = "BrevoResponse 500 (js ''down'')"
            and rj = "[js ''u1@ins.com'', js ''u2@ins.com'']" and req = marine_request
            and w = marine_world and em = "js ''b@x.com''"]
  have r: "fst (upload env_both ?bad marine_request marine_world) =
             (200, js ''New record created and notifications sent.'') \<and>
           fst (upload env_both all_ok marine_request marine_world) =
             (200, js ''New record created and notifications sent.'')"
    using v ok n by simp
  have m: "mail_recipients (trace (snd (upload env_both ?bad marine_request marine_world))) =
             [js ''u1@ins.com'', js ''u2@ins.com'']"
    by code_simp
  from r m show ?thesis by simp
qed

text \<open>
  Two requests that pass the checks, with the file stored and the record written, and
  are answered 500 all the same. In the first the recipient lookup fails after the
  record was created. In the second no call fails: the notes field came twice, the merge
  wrote \<^verbatim>\<open>first\<close>, a line break and \<^verbatim>\<open>x,y\<close> into the record, and building the mail body
  threw.
\<close>

theorem response_500_after_write_counterexample:
  "field_truthy (submitterEmail marine_request) \<and>
   req_file marine_request \<noteq> None \<and>
   bucket (snd (upload env_both (all_ok\<lparr>uw_by_ref_fails := True\<rparr>) marine_request marine_world)) =
     [js ''applications/2025-01/0000-1111-report.pdf''] \<and>
   store_writes (snd (upload env_both (all_ok\<lparr>uw_by_ref_fails := True\<rparr>) marine_request
                        marine_world)) = [CreateSubmission] \<and>
   length (submissions (snd (upload env_both (all_ok\<lparr>uw_by_ref_fails := True\<rparr>) marine_request
                               marine_world))) = 2 \<and>
   fst (upload env_both (all_ok\<lparr>uw_by_ref_fails := True\<rparr>) marine_request marine_world) =
     (500, js ''Server error'') \<and>
   field_truthy (submitterEmail repeated_notes_request) \<and>
   req_file repeated_notes_request \<noteq> None \<and>
   bucket (snd (upload env_both all_ok repeated_notes_request marine_world)) =
     [js ''applications/2025-01/0000-1111-addendum.pdf''] \<and>
   store_writes (snd (upload env_both all_ok repeated_notes_request marine_world)) =
     [UpdateSubmission 0] \<and>
   row_notes (submissions (snd (upload env_both all_ok repeated_notes_request marine_world)) ! 0) =
     js ''first'' @ [10] @ js ''x,y'' \<and>
   fst (upload env_both all_ok repeated_notes_request marine_world) = (500, js ''Server error'')"
  by code_simp

end
